theory Spec2Isabelle
  imports Main "HOL-Library.AList" "HOL-Library.Sublist"
begin

section \<open>JavaScript preliminaries\<close>

text \<open>
  The values a JavaScript caller can hand to the functions modelled below. SSRC numbers
  are integers; \<open>JNaN\<close> is the one number that is strictly equal to nothing.
\<close>

datatype jsval = JUndefined | JNull | JBool bool | JNumber int | JNaN | JString string

fun typeof :: "jsval \<Rightarrow> string" where
  "typeof JUndefined = ''undefined''"
| "typeof JNull = ''object''"
| "typeof (JBool _) = ''boolean''"
| "typeof (JNumber _) = ''number''"
| "typeof JNaN = ''number''"
| "typeof (JString _) = ''string''"

text \<open>The operator \<open>===\<close>.\<close>

fun strict_eq :: "jsval \<Rightarrow> jsval \<Rightarrow> bool" where
  "strict_eq JNaN _ = False"
| "strict_eq _ JNaN = False"
| "strict_eq a b = (a = b)"

text \<open>
  A JavaScript \<open>Map\<close> keeps its entries in insertion order; \<open>set\<close> on a present key
  replaces the value in place, on an absent key appends the entry.
\<close>

type_synonym ('k, 'v) js_map = "('k \<times> 'v) list"

definition Map_get :: "('k, 'v) js_map \<Rightarrow> 'k \<Rightarrow> 'v option" where
  "Map_get m k = map_of m k"

definition Map_has :: "('k, 'v) js_map \<Rightarrow> 'k \<Rightarrow> bool" where
  "Map_has m k = (map_of m k \<noteq> None)"

definition Map_set :: "'k \<Rightarrow> 'v \<Rightarrow> ('k, 'v) js_map \<Rightarrow> ('k, 'v) js_map" where
  "Map_set k v m = AList.update k v m"

definition Map_keys :: "('k, 'v) js_map \<Rightarrow> 'k list" where
  "Map_keys m = map fst m"

definition Map_values :: "('k, 'v) js_map \<Rightarrow> 'v list" where
  "Map_values m = map snd m"

text \<open>The result of a call that may throw.\<close>

datatype 'a outcome = Threw string | Returned 'a

section \<open>The peer connection's state\<close>

text \<open>
  WebRTC streams and tracks are objects compared by reference; the model names each
  object by a number.
\<close>

type_synonym stream_ref = nat
type_synonym track_ref = nat

record jitsi_remote_track =
  rt_ownerEndpointId :: string
  rt_stream :: stream_ref
  rt_track :: track_ref
  rt_mediaType :: string
  rt_videoType :: "string option"
  rt_ssrc :: int
  rt_muted :: bool
  rt_isP2P :: bool

record jitsi_local_track =
  rtcId :: nat
  lt_mediaType :: string
  lt_videoType :: "string option"
  storedMSID :: string

record tpc_group_info =
  semantics :: string
  group_ssrcs :: "int list"

record tpc_ssrc_info =
  ssrcs :: "int list"
  groups :: "tpc_group_info list"
  msid :: "string option"

record tpc_options =
  disableSimulcast :: bool
  disableRtx :: bool
  enableFirefoxSimulcast :: bool
  capScreenshareBitrate :: bool
  startSilent :: bool
  disableH264 :: bool
  preferH264 :: bool

text \<open>What the code asks the \<open>browser\<close> module, which is outside the sources at hand.\<close>

record browser_caps =
  isChrome :: bool
  isFirefox :: bool
  browserVersion :: nat
  supportsSimulcast :: bool
  supportsRtx :: bool
  usesUnifiedPlan :: bool

definition isVersionGreaterThan :: "browser_caps \<Rightarrow> nat \<Rightarrow> bool" where
  "isVersionGreaterThan b n = (browserVersion b > n)"

text \<open>
  The ICE username fragment: \<open>null\<close> at construction, later what \<open>getUfrag\<close> gave,
  a string or \<open>undefined\<close>.
\<close>

datatype ufrag = UfragNull | UfragUndefined | Ufrag string

datatype rtc_event =
    REMOTE_TRACK_ADDED jitsi_remote_track
  | LOCAL_UFRAG_CHANGED ufrag
  | SET_LOCAL_DESCRIPTION_FAILED string

datatype log_entry =
    LogInfo string
  | LogWarn string
  | LogError string

record tpc =
  audioTransferActive :: bool
  videoTransferActive :: bool
  isP2P :: bool
  options :: tpc_options
  remoteTracks :: "(string, (string, jitsi_remote_track) js_map) js_map"
  localTracks :: "(nat, jitsi_local_track) js_map"
  localSSRCs :: "(nat, tpc_ssrc_info) js_map"
  localUfrag :: ufrag
  updateLog :: "(string \<times> string) list"
  emitted :: "rtc_event list"
  logged :: "log_entry list"

section \<open>Looking tracks up\<close>

text \<open>\<open>getRemoteTracks(endpointId, mediaType)\<close>; an absent or empty argument is falsy.\<close>

definition truthy_arg :: "string option \<Rightarrow> bool" where
  "truthy_arg a = (case a of None \<Rightarrow> False | Some s \<Rightarrow> s \<noteq> [])"

definition getRemoteTracks ::
  "tpc \<Rightarrow> string option \<Rightarrow> string option \<Rightarrow> jitsi_remote_track list" where
  "getRemoteTracks st endpointId mediaType =
     (let endpoints = (case endpointId of
                         Some e \<Rightarrow> if truthy_arg endpointId then [e]
                                   else Map_keys (remoteTracks st)
                       | None \<Rightarrow> Map_keys (remoteTracks st))
      in concat (map (\<lambda>endpoint.
           case Map_get (remoteTracks st) endpoint of
             None \<Rightarrow> []
           | Some endpointTrackMap \<Rightarrow>
               concat (map (\<lambda>trackMediaType.
                 if \<not> truthy_arg mediaType \<or> mediaType = Some trackMediaType
                 then (case Map_get endpointTrackMap trackMediaType of
                         None \<Rightarrow> [] | Some mediaTrack \<Rightarrow> [mediaTrack])
                 else []) (Map_keys endpointTrackMap))) endpoints))"

definition getSSRC_local :: "tpc \<Rightarrow> nat \<Rightarrow> tpc_ssrc_info option" where
  "getSSRC_local st rid = Map_get (localSSRCs st) rid"

text \<open>\<open>getLocalSSRC\<close>: \<open>ssrcInfo && ssrcInfo.ssrcs[0]\<close>.\<close>

definition getLocalSSRC :: "tpc \<Rightarrow> jitsi_local_track \<Rightarrow> jsval" where
  "getLocalSSRC st localTrack =
     (case getSSRC_local st (rtcId localTrack) of
        None \<Rightarrow> JUndefined
      | Some ssrcInfo \<Rightarrow> (case ssrcs ssrcInfo of [] \<Rightarrow> JUndefined | s # _ \<Rightarrow> JNumber s))"

datatype jitsi_track = LocalTrack jitsi_local_track | RemoteTrack jitsi_remote_track

text \<open>\<open>getTrackBySSRC\<close>; \<open>None\<close> is the \<open>null\<close> it returns when nothing matches.\<close>

definition getTrackBySSRC :: "tpc \<Rightarrow> jsval \<Rightarrow> jitsi_track option outcome" where
  "getTrackBySSRC st ssrc =
     (if typeof ssrc \<noteq> ''number'' then Threw ''SSRC is not a number''
      else case find (\<lambda>localTrack. strict_eq (getLocalSSRC st localTrack) ssrc)
                  (Map_values (localTracks st)) of
             Some localTrack \<Rightarrow> Returned (Some (LocalTrack localTrack))
           | None \<Rightarrow>
              (case find (\<lambda>remoteTrack. strict_eq (JNumber (rt_ssrc remoteTrack)) ssrc)
                      (getRemoteTracks st None None) of
                 Some remoteTrack \<Rightarrow> Returned (Some (RemoteTrack remoteTrack))
               | None \<Rightarrow> Returned None))"

section \<open>Remote track creation\<close>

definition new_JitsiRemoteTrack ::
  "tpc \<Rightarrow> string \<Rightarrow> stream_ref \<Rightarrow> track_ref \<Rightarrow> string \<Rightarrow> string option \<Rightarrow> int \<Rightarrow> bool
     \<Rightarrow> jitsi_remote_track" where
  "new_JitsiRemoteTrack st ownerEndpointId stream track mediaType videoType ssrc muted =
     \<lparr>rt_ownerEndpointId = ownerEndpointId, rt_stream = stream, rt_track = track,
      rt_mediaType = mediaType, rt_videoType = videoType, rt_ssrc = ssrc,
      rt_muted = muted, rt_isP2P = isP2P st\<rparr>"

definition msg_ignored_duplicate :: "string \<Rightarrow> string \<Rightarrow> string" where
  "msg_ignored_duplicate ownerEndpointId mediaType =
     ''ignored duplicated remote track added event for: '' @ ownerEndpointId @ '', '' @ mediaType"

definition msg_overwriting :: "string \<Rightarrow> string \<Rightarrow> string" where
  "msg_overwriting ownerEndpointId mediaType =
     ''overwriting remote track for'' @ ownerEndpointId @ '' '' @ mediaType"

definition createRemoteTrack ::
  "tpc \<Rightarrow> string \<Rightarrow> stream_ref \<Rightarrow> track_ref \<Rightarrow> string \<Rightarrow> string option \<Rightarrow> int \<Rightarrow> bool \<Rightarrow> tpc" where
  "createRemoteTrack st ownerEndpointId stream track mediaType videoType ssrc muted =
     (let st1 = (case Map_get (remoteTracks st) ownerEndpointId of
                   None \<Rightarrow> st\<lparr>remoteTracks := Map_set ownerEndpointId [] (remoteTracks st)\<rparr>
                 | Some _ \<Rightarrow> st);
          remoteTracksMap = (case Map_get (remoteTracks st1) ownerEndpointId of
                               None \<Rightarrow> [] | Some m \<Rightarrow> m);
          existingTrack = Map_get remoteTracksMap mediaType;
          duplicate = (case existingTrack of
                         None \<Rightarrow> False | Some e \<Rightarrow> rt_track e = track)
      in if duplicate
         then st1\<lparr>logged := logged st1 @ [LogInfo (msg_ignored_duplicate ownerEndpointId mediaType)]\<rparr>
         else
           (let st2 = (if existingTrack \<noteq> None
                       then st1\<lparr>logged := logged st1
                              @ [LogError (msg_overwriting ownerEndpointId mediaType)]\<rparr>
                       else st1);
                remoteTrack = new_JitsiRemoteTrack st2 ownerEndpointId stream track mediaType
                                videoType ssrc muted
            in st2\<lparr>remoteTracks :=
                      Map_set ownerEndpointId (Map_set mediaType remoteTrack remoteTracksMap)
                        (remoteTracks st2),
                    emitted := emitted st2 @ [REMOTE_TRACK_ADDED remoteTrack]\<rparr>))"

text \<open>The entry a given (endpoint, media kind) slot holds.\<close>

definition slot :: "tpc \<Rightarrow> string \<Rightarrow> string \<Rightarrow> jitsi_remote_track option" where
  "slot st endpoint mediaType =
     (case Map_get (remoteTracks st) endpoint of
        None \<Rightarrow> None
      | Some m \<Rightarrow> Map_get m mediaType)"

text \<open>All entries of the two-level map, keyed by (endpoint, media kind).\<close>

definition slot_keys :: "tpc \<Rightarrow> (string \<times> string) list" where
  "slot_keys st = concat (map (\<lambda>(e, m). map (\<lambda>(k, t). (e, k)) m) (remoteTracks st))"

text \<open>
  The invariant of the two-level map: endpoint keys are distinct and so are the media
  kinds under each endpoint.
\<close>

definition one_entry_per_slot :: "tpc \<Rightarrow> bool" where
  "one_entry_per_slot st =
     (distinct (Map_keys (remoteTracks st))
      \<and> list_all (\<lambda>(e, m). distinct (Map_keys m)) (remoteTracks st))"

section \<open>Session descriptions\<close>

text \<open>
  A session description as WebRTC hands it over: its type and its SDP text.
\<close>

record description =
  d_type :: string
  sdp :: string

text \<open>
  The object the \<open>sdp-transform\<close> library parses an SDP text into, with the fields the
  code below reads or writes. A field the parser leaves \<open>undefined\<close> is \<open>None\<close>. The
  library itself is an external dependency: \<open>parse\<close> and \<open>write\<close> are parameters of
  every function that calls them.
\<close>

record ssrc_line =
  ssrc_id :: int
  ssrc_attribute :: string
  ssrc_value :: "string option"

record ssrc_group_line =
  sg_semantics :: "string option"
  sg_ssrcs :: "string option"

record rtp_line =
  rtp_payload :: int
  rtp_codec :: string
  rtp_rate :: "int option"

record fmtp_line =
  fmtp_payload :: int
  fmtp_config :: string

record media_line =
  m_type :: string
  m_direction :: "string option"
  m_payloads :: jsval
  m_rtp :: "rtp_line list"
  m_fmtp :: "fmtp_line list"
  m_ssrcs :: "ssrc_line list option"
  m_ssrcGroups :: "ssrc_group_line list option"
  m_simulcast_03 :: "string option"

record session =
  s_media :: "media_line list"
  s_other :: string

type_synonym sdp_parse = "string \<Rightarrow> session"
type_synonym sdp_write = "session \<Rightarrow> string"

text \<open>
  A media line found with \<open>media.find(...)\<close> is a reference into the parsed object:
  writing to it changes that element of \<open>media\<close>. \<open>update_first\<close> applies the change
  to the first element the predicate accepts.
\<close>

fun update_first :: "('a \<Rightarrow> bool) \<Rightarrow> ('a \<Rightarrow> 'a) \<Rightarrow> 'a list \<Rightarrow> 'a list" where
  "update_first P f [] = []"
| "update_first P f (x # xs) = (if P x then f x # xs else x # update_first P f xs)"

text \<open>
  Modelled from the spec: \<open>SdpTransformWrap.selectMedia\<close> is outside the sources at hand.
  The spec's data model has one media section per media kind (audio, video) in a session
  description, so \<open>selectMedia\<close> is the first media section of the kind, and \<open>null\<close>
  when the description has none.
\<close>

definition selectMedia :: "session \<Rightarrow> string \<Rightarrow> media_line option" where
  "selectMedia s mediaType = find (\<lambda>mLine. m_type mLine = mediaType) (s_media s)"

definition set_direction :: "string \<Rightarrow> string \<Rightarrow> session \<Rightarrow> session" where
  "set_direction mediaType d s =
     s\<lparr>s_media := update_first (\<lambda>mLine. m_type mLine = mediaType)
                     (\<lambda>mLine. mLine\<lparr>m_direction := Some d\<rparr>) (s_media s)\<rparr>"

subsection \<open>Direction enforcement\<close>

text \<open>
  The edits \<open>enforceSendRecv\<close> makes on the parsed description: first the audio
  section, then the video section, each with the \<open>changed\<close> flag it sets.
\<close>

definition enforce_audio :: "tpc_options \<Rightarrow> session \<Rightarrow> session \<times> bool" where
  "enforce_audio opts s =
     (case selectMedia s ''audio'' of
        None \<Rightarrow> (s, False)
      | Some audioMedia \<Rightarrow>
          if m_direction audioMedia \<noteq> Some ''sendrecv''
          then (if startSilent opts
                then (set_direction ''audio'' ''inactive'' s, True)
                else (set_direction ''audio'' ''sendrecv'' s, True))
          else (s, False))"

definition enforce_video :: "session \<Rightarrow> session \<times> bool" where
  "enforce_video s =
     (case selectMedia s ''video'' of
        None \<Rightarrow> (s, False)
      | Some videoMedia \<Rightarrow>
          if m_direction videoMedia \<noteq> Some ''sendrecv''
          then (set_direction ''video'' ''sendrecv'' s, True)
          else (s, False))"

definition enforceSendRecv_edit :: "tpc_options \<Rightarrow> session \<Rightarrow> session \<times> bool" where
  "enforceSendRecv_edit opts s0 =
     (let (s1, changed1) = enforce_audio opts s0;
          (s2, changed2) = enforce_video s1
      in (s2, changed1 \<or> changed2))"

definition enforceSendRecv ::
  "sdp_parse \<Rightarrow> sdp_write \<Rightarrow> description option \<Rightarrow> tpc_options \<Rightarrow> description outcome" where
  "enforceSendRecv parse write localDescription opts =
     (case localDescription of
        None \<Rightarrow> Threw ''No local description passed in.''
      | Some d \<Rightarrow>
          (let (s, changed) = enforceSendRecv_edit opts (parse (sdp d))
           in if changed then Returned \<lparr>d_type = d_type d, sdp = write s\<rparr>
              else Returned d))"

subsection \<open>Simulcast group injection\<close>

definition join_with :: "string \<Rightarrow> string list \<Rightarrow> string" where
  "join_with sep xs = (case xs of [] \<Rightarrow> [] | x # rest \<Rightarrow> x @ concat (map (\<lambda>y. sep @ y) rest))"

text \<open>Decimal notation of a number, as \<open>String(n)\<close> writes an integer.\<close>

definition digit_char :: "nat \<Rightarrow> char" where
  "digit_char d = (''0123456789'' ! d)"

function string_of_nat :: "nat \<Rightarrow> string" where
  "string_of_nat n = (if n < 10 then [digit_char n]
                      else string_of_nat (n div 10) @ [digit_char (n mod 10)])"
  by pat_completeness auto
termination
  by (relation "measure id") auto

declare string_of_nat.simps [simp del]

definition string_of_int :: "int \<Rightarrow> string" where
  "string_of_int i = (if i < 0 then CHR ''-'' # string_of_nat (nat (- i)) else string_of_nat (nat i))"

fun toString :: "jsval \<Rightarrow> string" where
  "toString JUndefined = ''undefined''"
| "toString JNull = ''null''"
| "toString (JBool b) = (if b then ''true'' else ''false'')"
| "toString (JNumber n) = string_of_int n"
| "toString JNaN = ''NaN''"
| "toString (JString s) = s"




subsection \<open>Fallback codec injection\<close>

definition lower_char :: "char \<Rightarrow> char" where
  "lower_char c =
     (case map_of (zip ''ABCDEFGHIJKLMNOPQRSTUVWXYZ'' ''abcdefghijklmnopqrstuvwxyz'') c of
        None \<Rightarrow> c | Some l \<Rightarrow> l)"

definition toLowerCase :: "string \<Rightarrow> string" where
  "toLowerCase s = map lower_char s"

text \<open>\<open>str.split(' ')\<close>: the pieces between the separators; at least one piece.\<close>

fun split_on :: "char \<Rightarrow> string \<Rightarrow> string list" where
  "split_on sep [] = [[]]"
| "split_on sep (c # cs) =
     (if c = sep then [] # split_on sep cs
      else (case split_on sep cs of
              [] \<Rightarrow> [[c]]
            | p # ps \<Rightarrow> (c # p) # ps))"

text \<open>
  The search \<open>for (let i = 127; i >= 96; i--) if (!payloadsArray.includes(i)) ...\<close>.
  \<open>payloadsArray\<close> holds the strings \<open>split\<close> produced; \<open>includes\<close> compares the
  number \<open>i\<close> with them by value and type.
\<close>

function find_dummy_payload :: "jsval list \<Rightarrow> int \<Rightarrow> int option" where
  "find_dummy_payload payloadsArray i =
     (if i \<ge> 96
      then (if JNumber i \<notin> set payloadsArray then Some i
            else find_dummy_payload payloadsArray (i - 1))
      else None)"
  by pat_completeness auto
termination
  by (relation "measure (\<lambda>(a, i). nat (i - 95))") auto

declare find_dummy_payload.simps [simp del]

definition H264_fmtp_config :: string where
  "H264_fmtp_config = ''level-asymmetry-allowed=1;'' @ ''packetization-mode=1;''
                      @ ''profile-level-id=42e01f''"

text \<open>The edit of the video line once a payload type was chosen.\<close>

definition inject_H264_into :: "media_line \<Rightarrow> jsval list \<Rightarrow> int \<Rightarrow> media_line" where
  "inject_H264_into videoMLine payloadsArray dummyPayloadType =
     videoMLine\<lparr>
       m_payloads := JString (join_with '' '' (map toString (payloadsArray @ [JNumber dummyPayloadType]))),
       m_rtp := m_rtp videoMLine
                @ [\<lparr>rtp_payload = dummyPayloadType, rtp_codec = ''H264'', rtp_rate = Some 90000\<rparr>],
       m_fmtp := m_fmtp videoMLine
                @ [\<lparr>fmtp_payload = dummyPayloadType, fmtp_config = H264_fmtp_config\<rparr>]\<rparr>"

text \<open>
  \<open>payloads.toString().split(' ')\<close>. The parser leaves \<open>payloads\<close> undefined
  when the \<open>m=\<close> line lists none; calling \<open>toString\<close> on \<open>undefined\<close> or
  \<open>null\<close> throws a TypeError.
\<close>

definition payloadsArray_of :: "media_line \<Rightarrow> jsval list outcome" where
  "payloadsArray_of videoMLine =
     (if m_payloads videoMLine = JUndefined \<or> m_payloads videoMLine = JNull
      then Threw ''TypeError''
      else Returned (map JString (split_on CHR '' '' (toString (m_payloads videoMLine)))))"

text \<open>
  \<open>_injectH264IfNotPresent\<close>, first on the parsed description: \<open>None\<close> where the
  code returns the description it was given, the object handed to \<open>write\<close> otherwise.
\<close>

definition H264_edit :: "session \<Rightarrow> session option outcome" where
  "H264_edit parsedSdp =
     (case find (\<lambda>m. m_type m = ''video'') (s_media parsedSdp) of
        None \<Rightarrow> Returned None
      | Some videoMLine \<Rightarrow>
          if list_ex (\<lambda>rtp. toLowerCase (rtp_codec rtp) = ''h264'') (m_rtp videoMLine)
          then Returned None
          else
            (case payloadsArray_of videoMLine of
               Threw e \<Rightarrow> Threw e
             | Returned payloadsArray \<Rightarrow>
                (case find_dummy_payload payloadsArray 127 of
                   None \<Rightarrow> Returned None
                 | Some dummyPayloadType \<Rightarrow>
                     Returned (Some (parsedSdp\<lparr>s_media :=
                             update_first (\<lambda>m. m_type m = ''video'')
                               (\<lambda>m. inject_H264_into m payloadsArray dummyPayloadType)
                               (s_media parsedSdp)\<rparr>)))))"

definition injectH264IfNotPresent ::
  "sdp_parse \<Rightarrow> sdp_write \<Rightarrow> description \<Rightarrow> description outcome" where
  "injectH264IfNotPresent parse write desc =
     (case H264_edit (parse (sdp desc)) of
        Threw e \<Rightarrow> Threw e
      | Returned None \<Rightarrow> Returned desc
      | Returned (Some s') \<Rightarrow> Returned \<lparr>d_type = d_type desc, sdp = write s'\<rparr>)"

subsection \<open>Receive-only SSRCs of the flat dialect\<close>

text \<open>
  The loop of \<open>replaceDefaultUnifiedPlanMsid\<close> over the problematic SSRC ids. Writing
  \<open>value\<close> of a cname line that \<open>find\<close> did not find throws a TypeError.
\<close>

fun replace_msid_loop :: "int list \<Rightarrow> ssrc_line list \<Rightarrow> ssrc_line list outcome" where
  "replace_msid_loop [] filteredLines = Returned filteredLines"
| "replace_msid_loop (ssrcId # rest) filteredLines =
     (case find (\<lambda>line. ssrc_id line = ssrcId \<and> ssrc_attribute line = ''cname'') filteredLines of
        None \<Rightarrow> Threw ''TypeError''
      | Some cnameLine \<Rightarrow>
          replace_msid_loop rest
            (filter (\<lambda>line. ssrc_id line \<noteq> ssrcId) filteredLines
             @ [cnameLine\<lparr>ssrc_value := Some (''recvonly-'' @ string_of_int ssrcId)\<rparr>]))"

definition problematicSsrcIds :: "ssrc_line list \<Rightarrow> int list" where
  "problematicSsrcIds ssrcLines =
     map ssrc_id (filter (\<lambda>ssrcLine. ssrc_attribute ssrcLine = ''mslabel''
                                     \<and> ssrc_value ssrcLine = Some ''-'') ssrcLines)"

definition replaceDefaultUnifiedPlanMsid ::
  "browser_caps \<Rightarrow> ssrc_line list \<Rightarrow> ssrc_line list outcome" where
  "replaceDefaultUnifiedPlanMsid browser ssrcLines =
     (if \<not> isChrome browser \<or> \<not> isVersionGreaterThan browser 70 then Returned ssrcLines
      else replace_msid_loop (problematicSsrcIds ssrcLines) ssrcLines)"

section \<open>JavaScript string operations\<close>

text \<open>
  Strings are lists of characters; indices are integers, \<open>-1\<close> meaning "not found", as
  in JavaScript. \<open>find_at pat s\<close> is the offset of the first occurrence of \<open>pat\<close> in
  \<open>s\<close>, \<open>find_last_at\<close> that of the last one.
\<close>

fun find_at :: "string \<Rightarrow> string \<Rightarrow> nat option" where
  "find_at pat [] = (if pat = [] then Some 0 else None)"
| "find_at pat (c # s) =
     (if prefix pat (c # s) then Some 0 else map_option Suc (find_at pat s))"

fun find_last_at :: "string \<Rightarrow> string \<Rightarrow> nat option" where
  "find_last_at pat [] = (if pat = [] then Some 0 else None)"
| "find_last_at pat (c # s) =
     (case find_last_at pat s of
        Some i \<Rightarrow> Some (Suc i)
      | None \<Rightarrow> if prefix pat (c # s) then Some 0 else None)"

definition clamp_index :: "string \<Rightarrow> int \<Rightarrow> nat" where
  "clamp_index s i = (if i < 0 then 0 else min (nat i) (length s))"

text \<open>\<open>s.indexOf(pat, position)\<close>.\<close>

definition indexOf :: "string \<Rightarrow> string \<Rightarrow> int \<Rightarrow> int" where
  "indexOf s pat position =
     (let start = clamp_index s position
      in case find_at pat (drop start s) of
           None \<Rightarrow> - 1
         | Some i \<Rightarrow> int (start + i))"

text \<open>\<open>s.lastIndexOf(pat)\<close>.\<close>

definition lastIndexOf :: "string \<Rightarrow> string \<Rightarrow> int" where
  "lastIndexOf s pat = (case find_last_at pat s of None \<Rightarrow> - 1 | Some i \<Rightarrow> int i)"

text \<open>\<open>s.substring(a, b)\<close>: both ends clamped into the string, swapped when \<open>a > b\<close>.\<close>

definition substring :: "string \<Rightarrow> int \<Rightarrow> int \<Rightarrow> string" where
  "substring s a b =
     (let x = clamp_index s a; y = clamp_index s b
      in take (max x y - min x y) (drop (min x y) s))"

text \<open>\<open>s.slice(a, b)\<close> and \<open>s.slice(a)\<close>: a negative index counts from the end.\<close>

definition slice_index :: "string \<Rightarrow> int \<Rightarrow> nat" where
  "slice_index s i = (if i < 0 then nat (int (length s) + i) else min (nat i) (length s))"

definition slice :: "string \<Rightarrow> int \<Rightarrow> int \<Rightarrow> string" where
  "slice s a b = (let x = slice_index s a; y = slice_index s b in take (y - x) (drop x s))"

definition slice_from :: "string \<Rightarrow> int \<Rightarrow> string" where
  "slice_from s a = drop (slice_index s a) s"

text \<open>
  \<open>s.replace(pat, by)\<close> with a string pattern: the first occurrence only. The
  replacement strings passed below hold no \<open>$\<close> pattern.
\<close>

definition replace_first :: "string \<Rightarrow> string \<Rightarrow> string \<Rightarrow> string" where
  "replace_first s pat by =
     (case find_at pat s of
        None \<Rightarrow> s
      | Some i \<Rightarrow> take i s @ by @ drop (i + length pat) s)"

text \<open>
  \<open>s.trim()\<close> strips white space and line terminators from both ends. A character
  here is a code unit from 0 to 255; of these, JavaScript counts as white space or line
  terminator TAB, LF, VT, FF, CR, the space and the no-break space (0xA0).
\<close>

definition is_space :: "char \<Rightarrow> bool" where
  "is_space c = (c \<in> set [CHR '' '', CHR 0x09, CHR 0x0A, CHR 0x0B, CHR 0x0C, CHR 0x0D, CHR 0xA0])"

definition trim :: "string \<Rightarrow> string" where
  "trim s = rev (dropWhile is_space (rev (dropWhile is_space s)))"

definition CRLF :: string where
  "CRLF = [CHR 0x0D, CHR 0x0A]"

section \<open>Simulcast group ordering\<close>

definition ensureSimulcastGroupIsLast :: "description \<Rightarrow> description" where
  "ensureSimulcastGroupIsLast localSdp =
     (let sdpStr = sdp localSdp;
          videoStartIndex = indexOf sdpStr ''m=video'' 0;
          simStartIndex = indexOf sdpStr ''a=ssrc-group:SIM'' videoStartIndex;
          otherStartIndex = lastIndexOf sdpStr ''a=ssrc-group''
      in if simStartIndex = - 1 \<or> otherStartIndex = - 1 \<or> otherStartIndex = simStartIndex
         then localSdp
         else
           (let simEndIndex = indexOf sdpStr CRLF simStartIndex;
                simStr = substring sdpStr simStartIndex (simEndIndex + 2);
                sdpStr1 = replace_first sdpStr simStr [];
                otherStartIndex1 = lastIndexOf sdpStr1 ''a=ssrc-group'';
                otherEndIndex = indexOf sdpStr1 CRLF otherStartIndex1;
                sdpHead = slice sdpStr1 0 otherEndIndex;
                simStrTrimmed = trim simStr;
                sdpTail = slice_from sdpStr1 otherEndIndex
            in \<lparr>d_type = d_type localSdp,
                sdp = sdpHead @ CRLF @ simStrTrimmed @ sdpTail\<rparr>))"



section \<open>New SSRCs for a local track\<close>

text \<open>
  \<open>SDPUtil.generateSsrc\<close> is outside the sources at hand: the numbers it hands out
  are a parameter, \<open>gen k\<close> being the result of its \<open>k\<close>-th call.
\<close>

type_synonym ssrc_source = "nat \<Rightarrow> int"

definition SIMULCAST_LAYERS :: nat where
  "SIMULCAST_LAYERS = 3"

definition isSimulcastOn :: "browser_caps \<Rightarrow> tpc \<Rightarrow> bool" where
  "isSimulcastOn browser st =
     (\<not> disableSimulcast (options st)
      \<and> supportsSimulcast browser
      \<and> (\<not> isFirefox browser \<or> enableFirefoxSimulcast (options st)))"

definition getLocalTracks :: "tpc \<Rightarrow> string option \<Rightarrow> jitsi_local_track list" where
  "getLocalTracks st mediaType =
     (case mediaType of
        None \<Rightarrow> Map_values (localTracks st)
      | Some t \<Rightarrow> filter (\<lambda>track. lt_mediaType track = t) (Map_values (localTracks st)))"

definition hasCameraTrack :: "tpc \<Rightarrow> bool" where
  "hasCameraTrack st = list_ex (\<lambda>t. lt_videoType t = Some ''camera'') (getLocalTracks st None)"

text \<open>The loop pushing one fresh SSRC per simulcast layer.\<close>

fun push_layers :: "ssrc_source \<Rightarrow> nat \<Rightarrow> nat \<Rightarrow> int list \<Rightarrow> int list \<times> nat" where
  "push_layers gen 0 k acc = (acc, k)"
| "push_layers gen (Suc n) k acc = push_layers gen n (Suc k) (acc @ [gen k])"

text \<open>
  The loop over the SSRCs present before RTX was added: index \<open>i\<close> runs over the
  original positions, each step appends the RTX SSRC and its FID group.
\<close>

fun push_rtx :: "ssrc_source \<Rightarrow> nat list \<Rightarrow> nat \<Rightarrow> tpc_ssrc_info \<Rightarrow> tpc_ssrc_info \<times> nat" where
  "push_rtx gen [] k info = (info, k)"
| "push_rtx gen (i # is) k info =
     (let primarySsrc = ssrcs info ! i;
          rtxSsrc = gen k
      in push_rtx gen is (Suc k)
           (info\<lparr>ssrcs := ssrcs info @ [rtxSsrc],
                 groups := groups info
                   @ [\<lparr>semantics = ''FID'', group_ssrcs = [primarySsrc, rtxSsrc]\<rparr>]\<rparr>))"

definition generateNewStreamSSRCInfo ::
  "browser_caps \<Rightarrow> ssrc_source \<Rightarrow> nat \<Rightarrow> tpc \<Rightarrow> jitsi_local_track
     \<Rightarrow> tpc_ssrc_info \<times> nat \<times> tpc" where
  "generateNewStreamSSRCInfo browser gen k st track =
     (let st1 = (case getSSRC_local st (rtcId track) of
                   Some _ \<Rightarrow> st\<lparr>logged := logged st
                              @ [LogError ''Will overwrite local SSRCs for track ID'']\<rparr>
                 | None \<Rightarrow> st);
          (ssrcInfo1, k1) =
            (if isSimulcastOn browser st
                \<and> (\<not> capScreenshareBitrate (options st)
                    \<or> (capScreenshareBitrate (options st) \<and> hasCameraTrack st))
             then (let (ss, k') = push_layers gen SIMULCAST_LAYERS k []
                   in (\<lparr>ssrcs = ss, groups = [\<lparr>semantics = ''SIM'', group_ssrcs = ss\<rparr>],
                        msid = None\<rparr>, k'))
             else (\<lparr>ssrcs = [gen k], groups = [], msid = None\<rparr>, Suc k));
          (ssrcInfo2, k2) =
            (if \<not> disableRtx (options st) \<and> supportsRtx browser
             then push_rtx gen [0..<length (ssrcs ssrcInfo1)] k1 ssrcInfo1
             else (ssrcInfo1, k1));
          ssrcInfo3 = ssrcInfo2\<lparr>msid := Some (storedMSID track)\<rparr>
      in (ssrcInfo3, k2,
          st1\<lparr>localSSRCs := Map_set (rtcId track) ssrcInfo3 (localSSRCs st1)\<rparr>))"

section \<open>Example states\<close>

definition example_remote :: jitsi_remote_track where
  "example_remote = \<lparr>rt_ownerEndpointId = ''alice'', rt_stream = 1, rt_track = 7,
      rt_mediaType = ''video'', rt_videoType = Some ''camera'', rt_ssrc = 4242,
      rt_muted = False, rt_isP2P = False\<rparr>"

definition example_local :: jitsi_local_track where
  "example_local = \<lparr>rtcId = 3, lt_mediaType = ''video'', lt_videoType = Some ''camera'',
      storedMSID = ''stream1 track1''\<rparr>"

definition example_options :: tpc_options where
  "example_options = \<lparr>disableSimulcast = False, disableRtx = False,
      enableFirefoxSimulcast = False, capScreenshareBitrate = False, startSilent = False,
      disableH264 = False, preferH264 = False\<rparr>"

definition example_tpc :: tpc where
  "example_tpc = \<lparr>audioTransferActive = True, videoTransferActive = True,
      isP2P = False, options = example_options,
      remoteTracks = [(''alice'', [(''video'', example_remote)])],
      localTracks = [(3, example_local)],
      localSSRCs = [(3, \<lparr>ssrcs = [1001, 1002], groups = [], msid = None\<rparr>)],
      localUfrag = UfragNull, updateLog = [], emitted = [], logged = []\<rparr>"

definition chrome_caps :: browser_caps where
  "chrome_caps = \<lparr>isChrome = True, isFirefox = False, browserVersion = 80,
      supportsSimulcast = True, supportsRtx = True, usesUnifiedPlan = False\<rparr>"

definition firefox_caps :: browser_caps where
  "firefox_caps = \<lparr>isChrome = False, isFirefox = True, browserVersion = 80,
      supportsSimulcast = True, supportsRtx = True, usesUnifiedPlan = True\<rparr>"

definition example_source :: ssrc_source where
  "example_source k = 1000 + int k"

definition desktop_track :: jitsi_local_track where
  "desktop_track = \<lparr>rtcId = 4, lt_mediaType = ''video'', lt_videoType = Some ''desktop'',
      storedMSID = ''stream2 track2''\<rparr>"

definition screenshare_tpc :: tpc where
  "screenshare_tpc = example_tpc\<lparr>
      options := example_options\<lparr>capScreenshareBitrate := True\<rparr>,
      localTracks := [(4, desktop_track)], localSSRCs := []\<rparr>"

definition audio_line :: "string option \<Rightarrow> media_line" where
  "audio_line d = \<lparr>m_type = ''audio'', m_direction = d, m_payloads = JNumber 111,
      m_rtp = [\<lparr>rtp_payload = 111, rtp_codec = ''opus'', rtp_rate = Some 48000\<rparr>],
      m_fmtp = [], m_ssrcs = None, m_ssrcGroups = None, m_simulcast_03 = None\<rparr>"

definition video_line :: "string option \<Rightarrow> media_line" where
  "video_line d = \<lparr>m_type = ''video'', m_direction = d, m_payloads = JString ''96 127'',
      m_rtp = [\<lparr>rtp_payload = 96, rtp_codec = ''VP8'', rtp_rate = Some 90000\<rparr>,
               \<lparr>rtp_payload = 127, rtp_codec = ''red'', rtp_rate = Some 90000\<rparr>],
      m_fmtp = [], m_ssrcs = None, m_ssrcGroups = None, m_simulcast_03 = None\<rparr>"

definition session_of :: "string option \<Rightarrow> string option \<Rightarrow> session" where
  "session_of a v = \<lparr>s_media = [audio_line a, video_line v], s_other = ''v=0''\<rparr>"

text \<open>
  The external parser and writer on the texts of the examples: a table of texts and the
  objects they stand for.
\<close>

definition example_texts :: "(string \<times> session) list" where
  "example_texts =
     [(''recvonly/recvonly'', session_of (Some ''recvonly'') (Some ''recvonly'')),
      (''recvonly/sendrecv'', session_of (Some ''recvonly'') (Some ''sendrecv'')),
      (''sendrecv/sendrecv'', session_of (Some ''sendrecv'') (Some ''sendrecv'')),
      (''inactive/sendrecv'', session_of (Some ''inactive'') (Some ''sendrecv''))]"

definition example_parse :: sdp_parse where
  "example_parse t = (case map_of example_texts t of
                        Some s \<Rightarrow> s | None \<Rightarrow> \<lparr>s_media = [], s_other = t\<rparr>)"

definition example_write :: sdp_write where
  "example_write s = (case find (\<lambda>(t, s'). s' = s) example_texts of
                        Some (t, _) \<Rightarrow> t | None \<Rightarrow> s_other s)"

definition silent_options :: tpc_options where
  "silent_options = example_options\<lparr>startSilent := True\<rparr>"

definition recvonly_description :: description where
  "recvonly_description = \<lparr>d_type = ''offer'', sdp = ''recvonly/recvonly''\<rparr>"

definition example_ssrc_lines :: "ssrc_line list" where
  "example_ssrc_lines =
     [\<lparr>ssrc_id = 5, ssrc_attribute = ''cname'', ssrc_value = Some ''abc''\<rparr>,
      \<lparr>ssrc_id = 5, ssrc_attribute = ''msid'', ssrc_value = Some ''- track5''\<rparr>,
      \<lparr>ssrc_id = 5, ssrc_attribute = ''mslabel'', ssrc_value = Some ''-''\<rparr>,
      \<lparr>ssrc_id = 5, ssrc_attribute = ''label'', ssrc_value = Some ''track5''\<rparr>,
      \<lparr>ssrc_id = 6, ssrc_attribute = ''cname'', ssrc_value = Some ''def''\<rparr>,
      \<lparr>ssrc_id = 6, ssrc_attribute = ''msid'', ssrc_value = Some ''stream6 track6''\<rparr>]"

section \<open>Committing a local description\<close>

text \<open>\<open>this.trace(what, info)\<close> appends to \<open>updateLog\<close>; the time stamp is left out.\<close>

definition trace :: "tpc \<Rightarrow> string \<Rightarrow> string \<Rightarrow> tpc" where
  "trace st what info = st\<lparr>updateLog := updateLog st @ [(what, info)]\<rparr>"

definition dumpSDP :: "description \<Rightarrow> string" where
  "dumpSDP d = ''type: '' @ d_type d @ CRLF @ sdp d"

definition hasAnyTracksOfType :: "tpc \<Rightarrow> string \<Rightarrow> bool" where
  "hasAnyTracksOfType st mediaType = (getLocalTracks st (Some mediaType) \<noteq> [])"

definition getDesiredMediaDirection :: "tpc \<Rightarrow> string \<Rightarrow> string" where
  "getDesiredMediaDirection st mediaType =
     (let mediaTransferActive =
            (if mediaType = ''audio'' then audioTransferActive st
             else if mediaType = ''video'' then videoTransferActive st
             else True)
      in if mediaTransferActive
         then (if hasAnyTracksOfType st mediaType then ''sendrecv'' else ''recvonly'')
         else ''inactive'')"

text \<open>
  One half of \<open>_adjustLocalMediaDirection\<close>: the section of one media kind, with the
  flag it sets and the line it logs.
\<close>

definition adjust_media ::
  "tpc \<Rightarrow> string \<Rightarrow> session \<Rightarrow> session \<times> bool \<times> log_entry list" where
  "adjust_media st mediaType s =
     (case selectMedia s mediaType of
        Some media \<Rightarrow>
          (let desiredDirection = getDesiredMediaDirection st mediaType
           in if m_direction media \<noteq> Some desiredDirection
              then (set_direction mediaType desiredDirection s, True,
                    [LogInfo (''Adjusted local '' @ mediaType @ '' direction to ''
                              @ desiredDirection)])
              else (s, False, []))
      | None \<Rightarrow>
          (s, False, [LogWarn (''No '' @ mediaType @ '' media found in the local description'')]))"

definition adjustLocalMediaDirection ::
  "sdp_parse \<Rightarrow> sdp_write \<Rightarrow> tpc \<Rightarrow> description \<Rightarrow> description \<times> tpc" where
  "adjustLocalMediaDirection parse write st localDescription =
     (let (s1, modified1, log1) = adjust_media st ''audio'' (parse (sdp localDescription));
          (s2, modified2, log2) = adjust_media st ''video'' s1;
          st' = st\<lparr>logged := logged st @ log1 @ log2\<rparr>
      in if modified1 \<or> modified2
         then (\<lparr>d_type = d_type localDescription, sdp = write s2\<rparr>, st')
         else (localDescription, st'))"

text \<open>
  What \<open>setLocalDescription\<close> calls outside the sources at hand: the SDP library, the
  codec helpers of \<open>SDPUtil\<close> (they edit the video line they are given, which may be
  \<open>undefined\<close>), the dialect converter, the transport's own \<open>setLocalDescription\<close>
  (\<open>None\<close> when it succeeds, the error when it fails) and \<open>SDPUtil.getUfrag\<close>.
\<close>

record sld_deps =
  dep_parse :: sdp_parse
  dep_write :: sdp_write
  dep_stripVideoCodec :: "media_line option \<Rightarrow> string \<Rightarrow> media_line option outcome"
  dep_preferVideoCodec :: "media_line option \<Rightarrow> string \<Rightarrow> media_line option outcome"
  dep_toUnifiedPlan :: "description \<Rightarrow> description outcome"
  dep_pc_setLocalDescription :: "description \<Rightarrow> string option"
  dep_getUfrag :: "string \<Rightarrow> ufrag"

datatype promise_result = Resolved | Rejected string

text \<open>The H264 step at the head of \<open>setLocalDescription\<close>.\<close>

definition h264_step :: "sld_deps \<Rightarrow> tpc \<Rightarrow> description \<Rightarrow> description outcome \<times> tpc" where
  "h264_step deps st localSdp =
     (if disableH264 (options st) \<or> preferH264 (options st)
      then
        (let parsedSdp = dep_parse deps (sdp localSdp);
             videoMLine = find (\<lambda>m. m_type m = ''video'') (s_media parsedSdp);
             edited = (if disableH264 (options st)
                       then dep_stripVideoCodec deps videoMLine ''h264''
                       else dep_preferVideoCodec deps videoMLine ''h264'')
         in case edited of
              Threw e \<Rightarrow> (Threw e, st)
            | Returned v \<Rightarrow>
               (let parsedSdp' = (case v of
                       None \<Rightarrow> parsedSdp
                     | Some m \<Rightarrow> parsedSdp\<lparr>s_media :=
                         update_first (\<lambda>m. m_type m = ''video'') (\<lambda>_. m) (s_media parsedSdp)\<rparr>);
                    localSdp' = \<lparr>d_type = d_type localSdp, sdp = dep_write deps parsedSdp'\<rparr>
                in (Returned localSdp',
                    trace st ''setLocalDescription::postTransform (H264)'' (dumpSDP localSdp'))))
      else (Returned localSdp, st))"

text \<open>Everything \<open>setLocalDescription\<close> does before it hands the description over.\<close>

definition prepareLocalDescription ::
  "sld_deps \<Rightarrow> browser_caps \<Rightarrow> tpc \<Rightarrow> description \<Rightarrow> description outcome \<times> tpc" where
  "prepareLocalDescription deps browser st description =
     (let st0 = trace st ''setLocalDescription::preTransform'' (dumpSDP description)
      in case h264_step deps st0 description of
           (Threw e, st1) \<Rightarrow> (Threw e, st1)
         | (Returned localSdp1, st1) \<Rightarrow>
            (let (localSdp2, st2) =
                   adjustLocalMediaDirection (dep_parse deps) (dep_write deps) st1 localSdp1;
                 localSdp3 = ensureSimulcastGroupIsLast localSdp2
             in if usesUnifiedPlan browser \<and> \<not> isFirefox browser
                then (case dep_toUnifiedPlan deps localSdp3 of
                        Threw e \<Rightarrow> (Threw e, st2)
                      | Returned localSdp4 \<Rightarrow>
                          (Returned localSdp4,
                           trace st2 ''setLocalDescription::postTransform (Unified Plan)''
                             (dumpSDP localSdp4)))
                else (Returned localSdp3, st2)))"

text \<open>
  The two callbacks of the transport's promise. The model runs the callback at once:
  nothing else touches the connection between the commit and its outcome.
\<close>

definition commitLocalDescription ::
  "sld_deps \<Rightarrow> tpc \<Rightarrow> description \<Rightarrow> promise_result \<times> tpc" where
  "commitLocalDescription deps st localSdp =
     (case dep_pc_setLocalDescription deps localSdp of
        None \<Rightarrow>
          (let st1 = trace st ''setLocalDescriptionOnSuccess'' [];
               newUfrag = dep_getUfrag deps (sdp localSdp)
           in if newUfrag \<noteq> localUfrag st1
              then (Resolved, st1\<lparr>localUfrag := newUfrag,
                                  emitted := emitted st1 @ [LOCAL_UFRAG_CHANGED newUfrag]\<rparr>)
              else (Resolved, st1))
      | Some err \<Rightarrow>
          (let st1 = trace st ''setLocalDescriptionOnFailure'' err
           in (Rejected err,
               st1\<lparr>emitted := emitted st1 @ [SET_LOCAL_DESCRIPTION_FAILED err]\<rparr>)))"

definition setLocalDescription ::
  "sld_deps \<Rightarrow> browser_caps \<Rightarrow> tpc \<Rightarrow> description \<Rightarrow> promise_result outcome \<times> tpc" where
  "setLocalDescription deps browser st description =
     (case prepareLocalDescription deps browser st description of
        (Threw e, st1) \<Rightarrow> (Threw e, st1)
      | (Returned localSdp, st1) \<Rightarrow>
          (let (result, st2) = commitLocalDescription deps st1 localSdp
           in (Returned result, st2)))"

text \<open>Transports and helpers for the examples.\<close>

definition example_deps :: "(description \<Rightarrow> string option) \<Rightarrow> sld_deps" where
  "example_deps commit =
     \<lparr>dep_parse = example_parse, dep_write = example_write,
      dep_stripVideoCodec = (\<lambda>v c. Returned v), dep_preferVideoCodec = (\<lambda>v c. Returned v),
      dep_toUnifiedPlan = Returned,
      dep_pc_setLocalDescription = commit,
      dep_getUfrag = (\<lambda>t. if t = ''recvonly/sendrecv'' then Ufrag ''u1'' else UfragUndefined)\<rparr>"

definition failing_transport :: "description \<Rightarrow> string option" where
  "failing_transport d = Some ''InvalidSessionDescriptionError''"

definition accepting_transport :: "description \<Rightarrow> string option" where
  "accepting_transport d = None"

section \<open>Stable SSRCs across descriptions\<close>

text \<open>
  The regular expressions are matched by the JavaScript engine, which is taken as a
  parameter: \<open>re_replace_gm pat by s\<close> is
  \<open>s.replace(new RegExp(pat, 'gm'), by)\<close>, \<open>re_match_gm pat s\<close> is
  \<open>s.match(new RegExp(pat, 'gm')) || []\<close>, and \<open>re_match pat s\<close> is
  \<open>s.match(new RegExp(pat))\<close>, the match followed by its capture groups.
\<close>

record regexp_engine =
  re_replace_gm :: "string \<Rightarrow> string \<Rightarrow> string \<Rightarrow> string"
  re_match_gm :: "string \<Rightarrow> string \<Rightarrow> string list"
  re_match :: "string \<Rightarrow> string \<Rightarrow> string list option"

text \<open>Entry \<open>i\<close> of a match; every pattern below has the groups that are read.\<close>

definition match_group :: "string list \<Rightarrow> nat \<Rightarrow> string" where
  "match_group m i = (if i < length m then m ! i else [])"

text \<open>A JavaScript \<open>Set\<close> of strings in insertion order.\<close>

definition Set_add :: "'a \<Rightarrow> 'a list \<Rightarrow> 'a list" where
  "Set_add x xs = (if x \<in> set xs then xs else xs @ [x])"

definition getMatches :: "regexp_engine \<Rightarrow> string \<Rightarrow> string \<Rightarrow> string list" where
  "getMatches re pattern lines =
     foldl (\<lambda>results line.
              case re_match re pattern line of
                None \<Rightarrow> results
              | Some m \<Rightarrow> Set_add (match_group m 1) results)
       [] (re_match_gm re pattern lines)"

definition getPlanBTrackIds :: "regexp_engine \<Rightarrow> string \<Rightarrow> string list" where
  "getPlanBTrackIds re s = getMatches re ''^a=ssrc:[0-9]+ +msid:.+ +(.+) *$'' s"

definition getUnifiedPlanTrackIds :: "regexp_engine \<Rightarrow> string \<Rightarrow> string list" where
  "getUnifiedPlanTrackIds re s = getMatches re ''^a=msid:.+ +(.+) *$'' s"

definition getPlanBSSRCs :: "regexp_engine \<Rightarrow> string \<Rightarrow> string \<Rightarrow> string list" where
  "getPlanBSSRCs re s trackId =
     getMatches re (''^a=ssrc:([0-9]+) +msid:[^ ]+ +'' @ trackId @ '' *$'') s"

lemma find_at_bound: "find_at pat s = Some i \<Longrightarrow> i + length pat \<le> length s"
proof (induction s arbitrary: i)
  case Nil
  then show ?case by (simp split: if_splits)
next
  case (Cons c s)
  then show ?case by (auto split: if_splits dest: prefix_length_le)
qed

text \<open>\<open>s.split(sep)\<close> for a separator that is not empty.\<close>

function split_str :: "string \<Rightarrow> string \<Rightarrow> string list" where
  "split_str sep s =
     (case find_at sep s of
        None \<Rightarrow> [s]
      | Some i \<Rightarrow> if sep = [] then [s]
                  else take i s # split_str sep (drop (i + length sep) s))"
  by pat_completeness auto
termination
proof (relation "measure (\<lambda>(sep, s). length s)")
  show "wf (measure (\<lambda>(sep, s). length s))" by simp
next
  fix sep s :: string and i
  assume "find_at sep s = Some i" and "sep \<noteq> []"
  then have "i + length sep \<le> length s" "0 < length sep"
    by (simp_all add: find_at_bound)
  then have "length s - (i + length sep) < length s" by arith
  then show "((sep, drop (i + length sep) s), (sep, s)) \<in> measure (\<lambda>(sep, s). length s)"
    by simp
qed

declare split_str.simps [simp del]

definition getMediaSections :: "regexp_engine \<Rightarrow> string \<Rightarrow> string \<Rightarrow> string \<Rightarrow> string list" where
  "getMediaSections re s kindParam directionParam =
     (let kind = (if kindParam = [] then ''.*'' else kindParam);
          direction = (if directionParam = [] then ''.*'' else directionParam)
      in filter (\<lambda>mediaSection.
                   re_match_gm re (''m='' @ kind) mediaSection \<noteq> []
                   \<and> re_match_gm re (''a='' @ direction) mediaSection \<noteq> [])
           (map (\<lambda>mediaSection. ''m='' @ mediaSection) (tl (split_str (CRLF @ ''m='') s))))"

definition getMediaSectionSSRCs :: "regexp_engine \<Rightarrow> string \<Rightarrow> string list" where
  "getMediaSectionSSRCs re mediaSection = getMatches re ''^a=ssrc:([0-9]+) +.*$'' mediaSection"

definition flatMap :: "'a list \<Rightarrow> ('a \<Rightarrow> 'b list) \<Rightarrow> 'b list" where
  "flatMap list mapFn = foldl (\<lambda>flattened item. flattened @ mapFn item) [] list"

definition getUnifiedPlanSSRCs :: "regexp_engine \<Rightarrow> string \<Rightarrow> string \<Rightarrow> string list" where
  "getUnifiedPlanSSRCs re s trackId =
     (let mediaSections = getMediaSections re s [] [];
          matchingMediaSections =
            filter (\<lambda>mediaSection.
                      re_match_gm re (''^a=msid:[^ ]+ +'' @ trackId @ '' *$'') mediaSection \<noteq> [])
              mediaSections
      in foldl (\<lambda>acc x. Set_add x acc) []
           (flatMap matchingMediaSections (getMediaSectionSSRCs re)))"

definition getTrackIdsToSSRCs ::
  "(string \<Rightarrow> string list) \<Rightarrow> (string \<Rightarrow> string \<Rightarrow> string list) \<Rightarrow> string
     \<Rightarrow> (string, string list) js_map" where
  "getTrackIdsToSSRCs getTrackIdsFk getSSRCs s =
     foldl (\<lambda>m trackId. Map_set trackId (getSSRCs s trackId) m) [] (getTrackIdsFk s)"

definition getPlanBTrackIdsToSSRCs :: "regexp_engine \<Rightarrow> string \<Rightarrow> (string, string list) js_map" where
  "getPlanBTrackIdsToSSRCs re s = getTrackIdsToSSRCs (getPlanBTrackIds re) (getPlanBSSRCs re) s"

definition getUnifiedPlanTrackIdsToSSRCs ::
  "regexp_engine \<Rightarrow> string \<Rightarrow> (string, string list) js_map" where
  "getUnifiedPlanTrackIdsToSSRCs re s =
     getTrackIdsToSSRCs (getUnifiedPlanTrackIds re) (getUnifiedPlanSSRCs re) s"

text \<open>
  The inner loop of \<open>updateTrackIdsToSSRCs\<close> over the old SSRCs of one track:
  \<open>newSSRCs[i]\<close> is \<open>undefined\<close> once the new SSRCs run out. Each step assigns
  \<open>newSdp\<close> from \<open>sdp\<close>, the text the function was given.
\<close>

fun update_ssrc_attrs ::
  "regexp_engine \<Rightarrow> string \<Rightarrow> string list \<Rightarrow> string list
     \<Rightarrow> (jsval, string) js_map \<times> string \<Rightarrow> (jsval, string) js_map \<times> string" where
  "update_ssrc_attrs re s [] newSSRCs acc = acc"
| "update_ssrc_attrs re s (oldSSRC # olds) newSSRCs (newSSRCsToOldSSRCs, newSdp) =
     (let newSSRC = (case newSSRCs of [] \<Rightarrow> JUndefined | n # _ \<Rightarrow> JString n);
          pattern = ''^a=ssrc:'' @ toString newSSRC @ '' (.*)$'';
          replacement = ''a=ssrc:'' @ oldSSRC @ '' $1''
      in update_ssrc_attrs re s olds (tl newSSRCs)
           (Map_set newSSRC oldSSRC newSSRCsToOldSSRCs, re_replace_gm re pattern replacement s))"

text \<open>The outer loop over the tracks of the new description, threading the cache.\<close>

fun update_tracks ::
  "regexp_engine \<Rightarrow> string \<Rightarrow> (string \<times> string list) list
     \<Rightarrow> (string, string list) js_map \<times> (jsval, string) js_map \<times> string
     \<Rightarrow> (string, string list) js_map \<times> (jsval, string) js_map \<times> string" where
  "update_tracks re s [] acc = acc"
| "update_tracks re s ((trackId, ssrcSet) # rest) (trackIdsToSSRCs, newSSRCsToOldSSRCs, newSdp) =
     (if \<not> Map_has trackIdsToSSRCs trackId
      then update_tracks re s rest
             (Map_set trackId ssrcSet trackIdsToSSRCs, newSSRCsToOldSSRCs, newSdp)
      else
        (let oldSSRCs = (case Map_get trackIdsToSSRCs trackId of None \<Rightarrow> [] | Some old \<Rightarrow> old);
             (m, t) = update_ssrc_attrs re s oldSSRCs ssrcSet (newSSRCsToOldSSRCs, newSdp)
         in update_tracks re s rest (trackIdsToSSRCs, m, t)))"

text \<open>The loop over the \<open>a=ssrc-group\<close> lines.\<close>

definition ssrc_group_pattern :: string where
  "ssrc_group_pattern = ''^(a=ssrc-group:[^ ]+ +)(.*)$''"

fun update_ssrc_groups ::
  "regexp_engine \<Rightarrow> (jsval, string) js_map \<Rightarrow> string list \<Rightarrow> string \<Rightarrow> string" where
  "update_ssrc_groups re newSSRCsToOldSSRCs [] newSdp = newSdp"
| "update_ssrc_groups re newSSRCsToOldSSRCs (line # rest) newSdp =
     (case re_match re ssrc_group_pattern line of
        None \<Rightarrow> update_ssrc_groups re newSSRCsToOldSSRCs rest newSdp
      | Some m \<Rightarrow>
          (let prefix = match_group m 1;
               newSSRCs = match_group m 2;
               oldSSRCs = join_with '' ''
                 (map (\<lambda>newSSRC.
                         case Map_get newSSRCsToOldSSRCs (JString newSSRC) of
                           None \<Rightarrow> newSSRC
                         | Some oldSSRC \<Rightarrow> if oldSSRC \<noteq> [] then oldSSRC else newSSRC)
                    (split_on CHR '' '' newSSRCs))
           in update_ssrc_groups re newSSRCsToOldSSRCs rest
                (replace_first newSdp (match_group m 0) (prefix @ oldSSRCs))))"

text \<open>
  \<open>updateTrackIdsToSSRCs\<close>: the SDP it returns, and the cache as it leaves it. The
  source ends with \<open>return sdp\<close>.
\<close>

definition updateTrackIdsToSSRCs ::
  "regexp_engine \<Rightarrow> (string \<Rightarrow> (string, string list) js_map)
     \<Rightarrow> (string, string list) js_map \<Rightarrow> string \<Rightarrow> string \<times> (string, string list) js_map" where
  "updateTrackIdsToSSRCs re getTrackIdsToSSRCsFk trackIdsToSSRCs s =
     (let newTrackIdsToSSRCs = getTrackIdsToSSRCsFk s;
          (trackIdsToSSRCs', newSSRCsToOldSSRCs, newSdp) =
             update_tracks re s newTrackIdsToSSRCs (trackIdsToSSRCs, [], s);
          matches = re_match_gm re ssrc_group_pattern newSdp;
          newSdp' = update_ssrc_groups re newSSRCsToOldSSRCs matches newSdp
      in (s, trackIdsToSSRCs'))"

definition updatePlanBTrackIdsToSSRCs ::
  "regexp_engine \<Rightarrow> (string, string list) js_map \<Rightarrow> string
     \<Rightarrow> string \<times> (string, string list) js_map" where
  "updatePlanBTrackIdsToSSRCs re trackIdsToSSRCs s =
     updateTrackIdsToSSRCs re (getPlanBTrackIdsToSSRCs re) trackIdsToSSRCs s"

definition updateUnifiedPlanTrackIdsToSSRCs ::
  "regexp_engine \<Rightarrow> (string, string list) js_map \<Rightarrow> string
     \<Rightarrow> string \<times> (string, string list) js_map" where
  "updateUnifiedPlanTrackIdsToSSRCs re trackIdsToSSRCs s =
     updateTrackIdsToSSRCs re (getUnifiedPlanTrackIdsToSSRCs re) trackIdsToSSRCs s"

text \<open>
  The text with the SSRCs replaced that the loops compute in \<open>newSdp\<close>, which the
  function does not return.
\<close>

definition computed_newSdp ::
  "regexp_engine \<Rightarrow> (string \<Rightarrow> (string, string list) js_map)
     \<Rightarrow> (string, string list) js_map \<Rightarrow> string \<Rightarrow> string" where
  "computed_newSdp re getTrackIdsToSSRCsFk trackIdsToSSRCs s =
     (let (trackIdsToSSRCs', newSSRCsToOldSSRCs, newSdp) =
             update_tracks re s (getTrackIdsToSSRCsFk s) (trackIdsToSSRCs, [], s)
      in update_ssrc_groups re newSSRCsToOldSSRCs
           (re_match_gm re ssrc_group_pattern newSdp) newSdp)"

text \<open>
  An engine for the example: on the one-line text of the example it answers the patterns
  the Plan B functions ask, as the JavaScript engine does.
\<close>

definition example_sdp_222 :: string where
  "example_sdp_222 = ''a=ssrc:222 msid:stream1 track1'' @ CRLF"

definition example_engine :: regexp_engine where
  "example_engine =
     \<lparr>re_replace_gm = (\<lambda>pat by s.
         if pat = ''^a=ssrc:222 (.*)$'' \<and> by = ''a=ssrc:111 $1'' \<and> s = example_sdp_222
         then ''a=ssrc:111 msid:stream1 track1'' @ CRLF else s),
      re_match_gm = (\<lambda>pat s.
         if s = example_sdp_222
            \<and> pat \<in> {''^a=ssrc:[0-9]+ +msid:.+ +(.+) *$'',
                      ''^a=ssrc:([0-9]+) +msid:[^ ]+ +track1 *$''}
         then [''a=ssrc:222 msid:stream1 track1''] else []),
      re_match = (\<lambda>pat s.
         if s = ''a=ssrc:222 msid:stream1 track1''
         then (if pat = ''^a=ssrc:[0-9]+ +msid:.+ +(.+) *$'' then Some [s, ''track1'']
               else if pat = ''^a=ssrc:([0-9]+) +msid:[^ ]+ +track1 *$'' then Some [s, ''222'']
               else None)
         else None)\<rparr>"







section \<open>Properties of track lookup\<close>

lemma find_first:
  "xs = pre @ t # post \<Longrightarrow> P t \<Longrightarrow> (\<forall>u\<in>set pre. \<not> P u) \<Longrightarrow> find P xs = Some t"
  by (induction pre arbitrary: xs) auto

lemma find_none: "(\<forall>u\<in>set xs. \<not> P u) \<Longrightarrow> find P xs = None"
  by (simp add: find_None_iff)

text \<open>
  C10. \<open>getTrackBySSRC\<close> throws for an argument that is not a number, whatever the
  state holds. For a number it returns: the first local track whose primary SSRC is
  strictly equal to the argument; when no local track matches, the first remote track
  with that SSRC; when none matches either, \<open>null\<close>. It always returns a track or
  \<open>null\<close>.
\<close>

theorem getTrackBySSRC_result:
  "(typeof v \<noteq> ''number'' \<longrightarrow>
      getTrackBySSRC st v = Threw ''SSRC is not a number''
      \<and> getTrackBySSRC st' v = getTrackBySSRC st v)
   \<and> (typeof v = ''number'' \<longrightarrow> (\<exists>r. getTrackBySSRC st v = Returned r))
   \<and> (typeof v = ''number''
        \<and> Map_values (localTracks st) = pre @ t # post
        \<and> strict_eq (getLocalSSRC st t) v
        \<and> (\<forall>u\<in>set pre. \<not> strict_eq (getLocalSSRC st u) v)
      \<longrightarrow> getTrackBySSRC st v = Returned (Some (LocalTrack t)))
   \<and> (typeof v = ''number''
        \<and> (\<forall>u\<in>set (Map_values (localTracks st)). \<not> strict_eq (getLocalSSRC st u) v)
        \<and> getRemoteTracks st None None = rpre @ r # rpost
        \<and> strict_eq (JNumber (rt_ssrc r)) v
        \<and> (\<forall>u\<in>set rpre. \<not> strict_eq (JNumber (rt_ssrc u)) v)
      \<longrightarrow> getTrackBySSRC st v = Returned (Some (RemoteTrack r)))
   \<and> (typeof v = ''number''
        \<and> (\<forall>u\<in>set (Map_values (localTracks st)). \<not> strict_eq (getLocalSSRC st u) v)
        \<and> (\<forall>u\<in>set (getRemoteTracks st None None). \<not> strict_eq (JNumber (rt_ssrc u)) v)
      \<longrightarrow> getTrackBySSRC st v = Returned None)"
proof (intro conjI impI)
  assume "typeof v \<noteq> ''number''"
  then show "getTrackBySSRC st v = Threw ''SSRC is not a number''"
    and "getTrackBySSRC st' v = getTrackBySSRC st v"
    by (simp_all add: getTrackBySSRC_def)
next
  assume "typeof v = ''number''"
  then show "\<exists>r. getTrackBySSRC st v = Returned r"
    by (simp add: getTrackBySSRC_def split: option.splits)
next
  assume h: "typeof v = ''number''
        \<and> Map_values (localTracks st) = pre @ t # post
        \<and> strict_eq (getLocalSSRC st t) v
        \<and> (\<forall>u\<in>set pre. \<not> strict_eq (getLocalSSRC st u) v)"
  then have "find (\<lambda>localTrack. strict_eq (getLocalSSRC st localTrack) v)
                (Map_values (localTracks st)) = Some t"
    using find_first [of "Map_values (localTracks st)" pre t post
        "\<lambda>localTrack. strict_eq (getLocalSSRC st localTrack) v"] by blast
  with h show "getTrackBySSRC st v = Returned (Some (LocalTrack t))"
    by (simp add: getTrackBySSRC_def)
next
  assume h: "typeof v = ''number''
        \<and> (\<forall>u\<in>set (Map_values (localTracks st)). \<not> strict_eq (getLocalSSRC st u) v)
        \<and> getRemoteTracks st None None = rpre @ r # rpost
        \<and> strict_eq (JNumber (rt_ssrc r)) v
        \<and> (\<forall>u\<in>set rpre. \<not> strict_eq (JNumber (rt_ssrc u)) v)"
  then have f1: "find (\<lambda>localTrack. strict_eq (getLocalSSRC st localTrack) v)
                (Map_values (localTracks st)) = None"
    by (simp add: find_none)
  from h have f2: "find (\<lambda>remoteTrack. strict_eq (JNumber (rt_ssrc remoteTrack)) v)
                (getRemoteTracks st None None) = Some r"
    using find_first [of "getRemoteTracks st None None" rpre r rpost
        "\<lambda>remoteTrack. strict_eq (JNumber (rt_ssrc remoteTrack)) v"] by blast
  from h f1 f2 show "getTrackBySSRC st v = Returned (Some (RemoteTrack r))"
    by (simp add: getTrackBySSRC_def)
next
  assume h: "typeof v = ''number''
        \<and> (\<forall>u\<in>set (Map_values (localTracks st)). \<not> strict_eq (getLocalSSRC st u) v)
        \<and> (\<forall>u\<in>set (getRemoteTracks st None None). \<not> strict_eq (JNumber (rt_ssrc u)) v)"
  then have f1: "find (\<lambda>localTrack. strict_eq (getLocalSSRC st localTrack) v)
                (Map_values (localTracks st)) = None"
    by (simp add: find_none)
  from h have f2: "find (\<lambda>remoteTrack. strict_eq (JNumber (rt_ssrc remoteTrack)) v)
                (getRemoteTracks st None None) = None"
    by (simp add: find_none)
  from h f1 f2 show "getTrackBySSRC st v = Returned None"
    by (simp add: getTrackBySSRC_def)
qed

theorem getTrackBySSRC_result_witness:
  "getTrackBySSRC example_tpc (JString ''1001'') = Threw ''SSRC is not a number''
   \<and> getTrackBySSRC example_tpc (JNumber 1001) = Returned (Some (LocalTrack example_local))
   \<and> getTrackBySSRC example_tpc (JNumber 4242) = Returned (Some (RemoteTrack example_remote))
   \<and> getTrackBySSRC example_tpc (JNumber 5) = Returned None
   \<and> getTrackBySSRC example_tpc JNaN = Returned None"
proof -
  have l: "Map_values (localTracks example_tpc) = [] @ example_local # []"
    by (simp add: example_tpc_def Map_values_def)
  have s: "getLocalSSRC example_tpc example_local = JNumber 1001"
    by (simp add: getLocalSSRC_def getSSRC_local_def Map_get_def example_tpc_def example_local_def)
  have r: "getRemoteTracks example_tpc None None = [] @ example_remote # []"
    by (simp add: getRemoteTracks_def truthy_arg_def Map_keys_def Map_get_def example_tpc_def)
  have rs: "rt_ssrc example_remote = 4242" by (simp add: example_remote_def)
  have a: "getTrackBySSRC example_tpc (JString ''1001'') = Threw ''SSRC is not a number''"
    using getTrackBySSRC_result [where v = "JString ''1001''" and st = example_tpc] by simp
  have b: "getTrackBySSRC example_tpc (JNumber 1001) = Returned (Some (LocalTrack example_local))"
    using getTrackBySSRC_result [where v = "JNumber 1001" and st = example_tpc and pre = "[]"
        and t = example_local and post = "[]"] l s by simp
  have c: "getTrackBySSRC example_tpc (JNumber 4242) = Returned (Some (RemoteTrack example_remote))"
    using getTrackBySSRC_result [where v = "JNumber 4242" and st = example_tpc and rpre = "[]"
        and r = example_remote and rpost = "[]"] l s r rs by simp
  have d: "getTrackBySSRC example_tpc (JNumber 5) = Returned None"
    using getTrackBySSRC_result [where v = "JNumber 5" and st = example_tpc] l s r rs by simp
  have e: "getTrackBySSRC example_tpc JNaN = Returned None"
    using getTrackBySSRC_result [where v = JNaN and st = example_tpc] l s r rs by simp
  from a b c d e show ?thesis by simp
qed

section \<open>Properties of remote track creation\<close>

lemma Map_get_set: "Map_get (Map_set k v m) k' = (if k' = k then Some v else Map_get m k')"
  by (simp add: Map_get_def Map_set_def update_conv')

lemma Map_get_Nil: "Map_get [] k = None"
  by (simp add: Map_get_def)

lemma Map_keys_set_distinct: "distinct (Map_keys m) \<Longrightarrow> distinct (Map_keys (Map_set k v m))"
  by (simp add: Map_keys_def Map_set_def distinct_update)

lemma list_all_update:
  "list_all P m \<Longrightarrow> P (k, v) \<Longrightarrow> list_all P (AList.update k v m)"
  by (induction m) auto

lemma Map_get_in_set: "Map_get m k = Some v \<Longrightarrow> (k, v) \<in> set m"
  by (simp add: Map_get_def map_of_SomeD)

lemma inner_distinct:
  "one_entry_per_slot st \<Longrightarrow> Map_get (remoteTracks st) e = Some m \<Longrightarrow> distinct (Map_keys m)"
  by (auto simp: one_entry_per_slot_def list_all_iff dest!: Map_get_in_set)

lemma slot_keys_fst:
  "(e, k) \<in> set (concat (map (\<lambda>(e, m). map (\<lambda>(k, t). (e, k)) m) rts)) \<Longrightarrow> e \<in> fst ` set rts"
  by (induction rts) (auto simp: case_prod_beta)

lemma concat_distinct_slots:
  "distinct (map fst rts) \<Longrightarrow> list_all (\<lambda>(e, m). distinct (map fst m)) rts \<Longrightarrow>
   distinct (concat (map (\<lambda>(e, m). map (\<lambda>(k, t). (e, k)) m) rts))"
proof (induction rts)
  case Nil
  then show ?case by simp
next
  case (Cons p rts)
  obtain e m where p: "p = (e, m)" by (cases p)
  have m: "distinct (map fst m)" using Cons.prems(2) p by simp
  have eq: "map (\<lambda>(k, t). (e, k)) m = map (Pair e) (map fst m)"
    by (simp add: case_prod_beta)
  have d: "distinct (map (\<lambda>(k, t). (e, k)) m)"
    unfolding eq using m by (simp add: distinct_map inj_on_def)
  have r: "distinct (concat (map (\<lambda>(e, m). map (\<lambda>(k, t). (e, k)) m) rts))"
    using Cons by simp
  have e: "e \<notin> fst ` set rts" using Cons.prems(1) p by simp
  have dj: "set (map (\<lambda>(k, t). (e, k)) m)
              \<inter> set (concat (map (\<lambda>(e, m). map (\<lambda>(k, t). (e, k)) m) rts)) = {}"
  proof (rule ccontr)
    assume "\<not> ?thesis"
    then obtain x where x1: "x \<in> set (map (\<lambda>(k, t). (e, k)) m)"
      and x2: "x \<in> set (concat (map (\<lambda>(e, m). map (\<lambda>(k, t). (e, k)) m) rts))" by blast
    from x1 obtain k where "x = (e, k)" by (auto simp: case_prod_beta)
    with x2 have "e \<in> fst ` set rts" using slot_keys_fst [of e k rts] by simp
    with e show False by simp
  qed
  show ?case using d r dj by (simp add: p)
qed

lemma one_entry_slot_keys: "one_entry_per_slot st \<Longrightarrow> distinct (slot_keys st)"
  unfolding one_entry_per_slot_def slot_keys_def Map_keys_def
  by (simp add: concat_distinct_slots)

lemma one_entry_set:
  assumes "one_entry_per_slot st" and "distinct (Map_keys m)"
    and "remoteTracks st' = Map_set e m (remoteTracks st)"
  shows "one_entry_per_slot st'"
  using assms
  by (simp add: one_entry_per_slot_def Map_keys_set_distinct)
     (simp add: Map_set_def list_all_update)

lemma one_entry_logged: "one_entry_per_slot (st\<lparr>logged := l\<rparr>) = one_entry_per_slot st"
  by (simp add: one_entry_per_slot_def)

lemma createRemoteTrack_keeps_one_entry:
  assumes "one_entry_per_slot st"
  shows "one_entry_per_slot (createRemoteTrack st ep stream track mt vt ssrc muted)"
proof (cases "Map_get (remoteTracks st) ep")
  case None
  have a: "one_entry_per_slot (st\<lparr>remoteTracks := Map_set ep [] (remoteTracks st)\<rparr>)"
    using assms by (rule one_entry_set) (simp_all add: Map_keys_def)
  have b: "distinct (Map_keys (Map_set mt r []))" for r :: jitsi_remote_track
    by (simp add: Map_keys_def Map_set_def)
  show ?thesis
    using None
    by (auto simp: createRemoteTrack_def Let_def Map_get_set Map_get_Nil
          intro!: one_entry_set [OF a b])
next
  case (Some m)
  then have dm: "distinct (Map_keys m)" using assms inner_distinct by blast
  have b: "distinct (Map_keys (Map_set mt r m))" for r
    by (simp add: Map_keys_set_distinct dm)
  show ?thesis
    using Some assms
    by (auto simp: createRemoteTrack_def Let_def one_entry_logged split: option.splits
          intro!: one_entry_set [OF assms b])
qed

lemma slot_createRemoteTrack_duplicate:
  assumes "slot st ep mt = Some e" and "rt_track e = track"
  shows "remoteTracks (createRemoteTrack st ep stream track mt vt ssrc muted) = remoteTracks st"
    and "emitted (createRemoteTrack st ep stream track mt vt ssrc muted) = emitted st"
    and "logged (createRemoteTrack st ep stream track mt vt ssrc muted)
           = logged st @ [LogInfo (msg_ignored_duplicate ep mt)]"
  using assms
  by (auto simp: createRemoteTrack_def slot_def Let_def split: option.splits)

lemma slot_createRemoteTrack_new:
  assumes "\<not> (\<exists>e. slot st ep mt = Some e \<and> rt_track e = track)"
  shows "slot (createRemoteTrack st ep stream track mt vt ssrc muted) ep mt
           = Some (new_JitsiRemoteTrack st ep stream track mt vt ssrc muted)"
    and "emitted (createRemoteTrack st ep stream track mt vt ssrc muted)
           = emitted st @ [REMOTE_TRACK_ADDED (new_JitsiRemoteTrack st ep stream track mt vt ssrc muted)]"
    and "logged (createRemoteTrack st ep stream track mt vt ssrc muted)
           = logged st @ (if slot st ep mt = None then [] else [LogError (msg_overwriting ep mt)])"
  using assms
  by (auto simp: createRemoteTrack_def slot_def Let_def Map_get_set new_JitsiRemoteTrack_def
          split: option.splits)
     (simp_all add: Map_get_def)

lemma slot_createRemoteTrack_other:
  assumes "(e', k') \<noteq> (ep, mt)"
  shows "slot (createRemoteTrack st ep stream track mt vt ssrc muted) e' k' = slot st e' k'"
  using assms
  by (auto simp: createRemoteTrack_def slot_def Let_def Map_get_set split: option.splits)
     (simp_all add: Map_get_def)

text \<open>
  C9. \<open>_createRemoteTrack\<close>: a notification for a slot that already holds the same
  WebRTC track leaves the map and the emitted events as they were; a notification for an
  occupied slot with a different track replaces the entry, logs the overwrite as an error
  and emits remote-track-added; every other slot is untouched, and the map keeps at most
  one entry per (endpoint, media kind).
\<close>

theorem createRemoteTrack_slot_policy:
  fixes st :: tpc and ep mt :: string and stream track :: nat and vt ssrc muted
  defines "st' \<equiv> createRemoteTrack st ep stream track mt vt ssrc muted"
    and "new \<equiv> new_JitsiRemoteTrack st ep stream track mt vt ssrc muted"
  assumes inv: "one_entry_per_slot st"
  shows "(\<forall>e. slot st ep mt = Some e \<and> rt_track e = track \<longrightarrow>
            remoteTracks st' = remoteTracks st \<and> emitted st' = emitted st)
       \<and> (\<forall>e. slot st ep mt = Some e \<and> rt_track e \<noteq> track \<longrightarrow>
            slot st' ep mt = Some new
            \<and> emitted st' = emitted st @ [REMOTE_TRACK_ADDED new]
            \<and> logged st' = logged st @ [LogError (msg_overwriting ep mt)])
       \<and> (slot st ep mt = None \<longrightarrow>
            slot st' ep mt = Some new
            \<and> emitted st' = emitted st @ [REMOTE_TRACK_ADDED new]
            \<and> logged st' = logged st)
       \<and> (\<forall>e' k'. (e', k') \<noteq> (ep, mt) \<longrightarrow> slot st' e' k' = slot st e' k')
       \<and> one_entry_per_slot st' \<and> distinct (slot_keys st')"
proof (intro conjI allI impI)
  fix e assume "slot st ep mt = Some e \<and> rt_track e = track"
  then show "remoteTracks st' = remoteTracks st" and "emitted st' = emitted st"
    unfolding st'_def by (simp_all add: slot_createRemoteTrack_duplicate)
next
  fix e assume h: "slot st ep mt = Some e \<and> rt_track e \<noteq> track"
  then have n: "\<not> (\<exists>e. slot st ep mt = Some e \<and> rt_track e = track)" by auto
  show "slot st' ep mt = Some new" and "emitted st' = emitted st @ [REMOTE_TRACK_ADDED new]"
    and "logged st' = logged st @ [LogError (msg_overwriting ep mt)]"
    unfolding st'_def new_def using h by (simp_all add: slot_createRemoteTrack_new [OF n])
next
  assume h: "slot st ep mt = None"
  then have n: "\<not> (\<exists>e. slot st ep mt = Some e \<and> rt_track e = track)" by auto
  show "slot st' ep mt = Some new" and "emitted st' = emitted st @ [REMOTE_TRACK_ADDED new]"
    and "logged st' = logged st"
    unfolding st'_def new_def using h by (simp_all add: slot_createRemoteTrack_new [OF n])
next
  fix e' k' assume "(e', k') \<noteq> (ep, mt)"
  then show "slot st' e' k' = slot st e' k'"
    unfolding st'_def by (rule slot_createRemoteTrack_other)
next
  show i: "one_entry_per_slot st'"
    unfolding st'_def using inv by (rule createRemoteTrack_keeps_one_entry)
  then show "distinct (slot_keys st')" by (rule one_entry_slot_keys)
qed

lemma example_tpc_one_entry: "one_entry_per_slot example_tpc"
  by (simp add: one_entry_per_slot_def example_tpc_def Map_keys_def)

lemma example_slot: "slot example_tpc ''alice'' ''video'' = Some example_remote"
  by (simp add: slot_def example_tpc_def Map_get_def)

theorem createRemoteTrack_slot_policy_witness:
  "one_entry_per_slot example_tpc
   \<and> remoteTracks (createRemoteTrack example_tpc ''alice'' 1 7 ''video'' None 4242 False)
        = remoteTracks example_tpc
   \<and> emitted (createRemoteTrack example_tpc ''alice'' 1 7 ''video'' None 4242 False) = []
   \<and> slot (createRemoteTrack example_tpc ''alice'' 2 8 ''video'' None 5000 True) ''alice'' ''video''
        = Some (new_JitsiRemoteTrack example_tpc ''alice'' 2 8 ''video'' None 5000 True)
   \<and> emitted (createRemoteTrack example_tpc ''alice'' 2 8 ''video'' None 5000 True)
        = [REMOTE_TRACK_ADDED (new_JitsiRemoteTrack example_tpc ''alice'' 2 8 ''video'' None 5000 True)]
   \<and> logged (createRemoteTrack example_tpc ''alice'' 2 8 ''video'' None 5000 True)
        = [LogError (msg_overwriting ''alice'' ''video'')]
   \<and> slot_keys (createRemoteTrack example_tpc ''bob'' 3 9 ''audio'' None 6000 False)
        = [(''alice'', ''video''), (''bob'', ''audio'')]"
proof -
  have t: "rt_track example_remote = 7" by (simp add: example_remote_def)
  have e: "emitted example_tpc = []" "logged example_tpc = []" by (simp_all add: example_tpc_def)
  have k: "slot_keys (createRemoteTrack example_tpc ''bob'' 3 9 ''audio'' None 6000 False)
        = [(''alice'', ''video''), (''bob'', ''audio'')]"
    by (simp add: slot_keys_def createRemoteTrack_def example_tpc_def Map_get_def Map_set_def
          Let_def)
  show ?thesis
    using createRemoteTrack_slot_policy [where st = example_tpc and ep = "''alice''" and mt = "''video''"
          and track = 7 and stream = 1 and vt = None and ssrc = 4242 and muted = False]
      createRemoteTrack_slot_policy [where st = example_tpc and ep = "''alice''" and mt = "''video''"
          and track = 8 and stream = 2 and vt = None and ssrc = 5000 and muted = True]
      example_tpc_one_entry example_slot t e k
    by simp
qed

section \<open>Properties of SSRC generation\<close>

lemma push_layers_3:
  "push_layers gen SIMULCAST_LAYERS k [] = ([gen k, gen (Suc k), gen (Suc (Suc k))], Suc (Suc (Suc k)))"
  by (simp add: SIMULCAST_LAYERS_def numeral_3_eq_3)

lemma push_rtx_3:
  "push_rtx gen [0..<3] k \<lparr>ssrcs = [a, b, c], groups = gs, msid = m\<rparr>
     = (\<lparr>ssrcs = [a, b, c, gen k, gen (Suc k), gen (Suc (Suc k))],
         groups = gs @ [\<lparr>semantics = ''FID'', group_ssrcs = [a, gen k]\<rparr>,
                        \<lparr>semantics = ''FID'', group_ssrcs = [b, gen (Suc k)]\<rparr>,
                        \<lparr>semantics = ''FID'', group_ssrcs = [c, gen (Suc (Suc k))]\<rparr>],
         msid = m\<rparr>, Suc (Suc (Suc k)))"
proof -
  have u: "[0..<3] = [0, Suc 0, Suc (Suc 0)]" by (simp add: upt_rec)
  show ?thesis unfolding u by (simp add: Let_def)
qed

text \<open>
  C3 (amended). With RTX enabled and supported: when simulcast is on, and either
  \<open>capScreenshareBitrate\<close> is off or the connection has a camera track,
  \<open>generateNewStreamSSRCInfo\<close> returns three primary SSRCs followed by three RTX
  SSRCs, one SIM group listing the primaries in the order generated, and three FID groups,
  each a primary followed by its RTX SSRC. In every other case, that is when simulcast is
  off, or \<open>capScreenshareBitrate\<close> is set and there is no camera track, it returns one
  primary SSRC followed by its RTX SSRC, one FID group pairing them, and no SIM group.
\<close>

theorem generateNewStreamSSRCInfo_simulcast_rtx:
  assumes "\<not> disableRtx (options st)" and "supportsRtx browser"
  shows "(isSimulcastOn browser st
            \<and> (\<not> capScreenshareBitrate (options st) \<or> hasCameraTrack st)
          \<longrightarrow> fst (generateNewStreamSSRCInfo browser gen k st track) =
     \<lparr>ssrcs = [gen k, gen (k + 1), gen (k + 2), gen (k + 3), gen (k + 4), gen (k + 5)],
      groups = [\<lparr>semantics = ''SIM'', group_ssrcs = [gen k, gen (k + 1), gen (k + 2)]\<rparr>,
                \<lparr>semantics = ''FID'', group_ssrcs = [gen k, gen (k + 3)]\<rparr>,
                \<lparr>semantics = ''FID'', group_ssrcs = [gen (k + 1), gen (k + 4)]\<rparr>,
                \<lparr>semantics = ''FID'', group_ssrcs = [gen (k + 2), gen (k + 5)]\<rparr>],
      msid = Some (storedMSID track)\<rparr>)
       \<and> (\<not> isSimulcastOn browser st
            \<or> (capScreenshareBitrate (options st) \<and> \<not> hasCameraTrack st)
          \<longrightarrow> fst (generateNewStreamSSRCInfo browser gen k st track) =
     \<lparr>ssrcs = [gen k, gen (k + 1)],
      groups = [\<lparr>semantics = ''FID'', group_ssrcs = [gen k, gen (k + 1)]\<rparr>],
      msid = Some (storedMSID track)\<rparr>)"
proof (intro conjI impI)
  assume "isSimulcastOn browser st
            \<and> (\<not> capScreenshareBitrate (options st) \<or> hasCameraTrack st)"
  then show "fst (generateNewStreamSSRCInfo browser gen k st track) =
     \<lparr>ssrcs = [gen k, gen (k + 1), gen (k + 2), gen (k + 3), gen (k + 4), gen (k + 5)],
      groups = [\<lparr>semantics = ''SIM'', group_ssrcs = [gen k, gen (k + 1), gen (k + 2)]\<rparr>,
                \<lparr>semantics = ''FID'', group_ssrcs = [gen k, gen (k + 3)]\<rparr>,
                \<lparr>semantics = ''FID'', group_ssrcs = [gen (k + 1), gen (k + 4)]\<rparr>,
                \<lparr>semantics = ''FID'', group_ssrcs = [gen (k + 2), gen (k + 5)]\<rparr>],
      msid = Some (storedMSID track)\<rparr>"
    using assms
    by (auto simp: generateNewStreamSSRCInfo_def Let_def push_layers_3 push_rtx_3
          numeral_eq_Suc split: prod.splits)
next
  assume "\<not> isSimulcastOn browser st
            \<or> (capScreenshareBitrate (options st) \<and> \<not> hasCameraTrack st)"
  then show "fst (generateNewStreamSSRCInfo browser gen k st track) =
     \<lparr>ssrcs = [gen k, gen (k + 1)],
      groups = [\<lparr>semantics = ''FID'', group_ssrcs = [gen k, gen (k + 1)]\<rparr>],
      msid = Some (storedMSID track)\<rparr>"
    using assms
    by (auto simp: generateNewStreamSSRCInfo_def Let_def split: prod.splits)
qed

theorem generateNewStreamSSRCInfo_simulcast_rtx_witness:
  "isSimulcastOn chrome_caps example_tpc
   \<and> \<not> capScreenshareBitrate (options example_tpc)
   \<and> \<not> disableRtx (options example_tpc) \<and> supportsRtx chrome_caps
   \<and> fst (generateNewStreamSSRCInfo chrome_caps example_source 0 example_tpc example_local) =
     \<lparr>ssrcs = [1000, 1001, 1002, 1003, 1004, 1005],
      groups = [\<lparr>semantics = ''SIM'', group_ssrcs = [1000, 1001, 1002]\<rparr>,
                \<lparr>semantics = ''FID'', group_ssrcs = [1000, 1003]\<rparr>,
                \<lparr>semantics = ''FID'', group_ssrcs = [1001, 1004]\<rparr>,
                \<lparr>semantics = ''FID'', group_ssrcs = [1002, 1005]\<rparr>],
      msid = Some ''stream1 track1''\<rparr>
   \<and> capScreenshareBitrate (options screenshare_tpc) \<and> \<not> hasCameraTrack screenshare_tpc
   \<and> \<not> disableRtx (options screenshare_tpc)
   \<and> fst (generateNewStreamSSRCInfo chrome_caps example_source 7 screenshare_tpc desktop_track) =
     \<lparr>ssrcs = [1007, 1008],
      groups = [\<lparr>semantics = ''FID'', group_ssrcs = [1007, 1008]\<rparr>],
      msid = Some ''stream2 track2''\<rparr>"
proof -
  have a: "isSimulcastOn chrome_caps example_tpc"
    by (simp add: isSimulcastOn_def chrome_caps_def example_tpc_def example_options_def)
  have b: "\<not> capScreenshareBitrate (options example_tpc)"
    by (simp add: example_tpc_def example_options_def)
  have c: "\<not> disableRtx (options example_tpc)"
    by (simp add: example_tpc_def example_options_def)
  have d: "supportsRtx chrome_caps" by (simp add: chrome_caps_def)
  have e: "capScreenshareBitrate (options screenshare_tpc)" "\<not> hasCameraTrack screenshare_tpc"
    "\<not> disableRtx (options screenshare_tpc)"
    by (simp_all add: screenshare_tpc_def example_tpc_def example_options_def hasCameraTrack_def
          getLocalTracks_def Map_values_def desktop_track_def)
  have s: "fst (generateNewStreamSSRCInfo chrome_caps example_source 0 example_tpc example_local) =
     \<lparr>ssrcs = [1000, 1001, 1002, 1003, 1004, 1005],
      groups = [\<lparr>semantics = ''SIM'', group_ssrcs = [1000, 1001, 1002]\<rparr>,
                \<lparr>semantics = ''FID'', group_ssrcs = [1000, 1003]\<rparr>,
                \<lparr>semantics = ''FID'', group_ssrcs = [1001, 1004]\<rparr>,
                \<lparr>semantics = ''FID'', group_ssrcs = [1002, 1005]\<rparr>],
      msid = Some ''stream1 track1''\<rparr>"
    using generateNewStreamSSRCInfo_simulcast_rtx [OF c d, of example_source 0 example_local,
        THEN conjunct1] a b
    by (simp add: example_source_def example_local_def)
  have n: "fst (generateNewStreamSSRCInfo chrome_caps example_source 7 screenshare_tpc desktop_track) =
     \<lparr>ssrcs = [1007, 1008],
      groups = [\<lparr>semantics = ''FID'', group_ssrcs = [1007, 1008]\<rparr>],
      msid = Some ''stream2 track2''\<rparr>"
    using generateNewStreamSSRCInfo_simulcast_rtx [OF e(3) d, of example_source 7 desktop_track,
        THEN conjunct2] e(1,2)
    by (simp add: example_source_def desktop_track_def)
  from a b c d e s n show ?thesis by (intro conjI)
qed

text \<open>
  With simulcast and RTX on but \<open>capScreenshareBitrate\<close> set and no camera track, the
  same call yields a single primary SSRC with its RTX pair and no SIM group.
\<close>

theorem generateNewStreamSSRCInfo_screenshare_counterexample:
  "isSimulcastOn chrome_caps screenshare_tpc
   \<and> \<not> disableRtx (options screenshare_tpc) \<and> supportsRtx chrome_caps
   \<and> fst (generateNewStreamSSRCInfo chrome_caps example_source 0 screenshare_tpc desktop_track) =
     \<lparr>ssrcs = [1000, 1001],
      groups = [\<lparr>semantics = ''FID'', group_ssrcs = [1000, 1001]\<rparr>],
      msid = Some ''stream2 track2''\<rparr>"
  by (simp add: isSimulcastOn_def chrome_caps_def screenshare_tpc_def example_tpc_def
      example_options_def generateNewStreamSSRCInfo_def Let_def hasCameraTrack_def
      getLocalTracks_def Map_values_def desktop_track_def example_source_def
      getSSRC_local_def Map_get_def)

section \<open>Properties of direction enforcement\<close>

lemma find_update_first_type:
  assumes "\<And>x. m_type (f x) = m_type x"
  shows "find (\<lambda>m. m_type m = t') (update_first (\<lambda>m. m_type m = t) f xs)
         = (if t' = t then map_option f (find (\<lambda>m. m_type m = t) xs)
            else find (\<lambda>m. m_type m = t') xs)"
  using assms by (induction xs) auto

lemma selectMedia_set_direction:
  "selectMedia (set_direction t d s) t'
     = (if t' = t then map_option (\<lambda>m. m\<lparr>m_direction := Some d\<rparr>) (selectMedia s t)
        else selectMedia s t')"
  by (simp add: selectMedia_def set_direction_def find_update_first_type)



text \<open>What the edit leaves in the audio and the video section.\<close>

lemma enforce_audio_audio:
  "selectMedia (fst (enforce_audio opts s)) ''audio''
     = map_option (\<lambda>m. m\<lparr>m_direction :=
           Some (if startSilent opts \<and> m_direction m \<noteq> Some ''sendrecv''
                 then ''inactive'' else ''sendrecv'')\<rparr>) (selectMedia s ''audio'')"
  by (cases "selectMedia s ''audio''") (simp_all add: enforce_audio_def selectMedia_set_direction)

lemma enforce_audio_video:
  "selectMedia (fst (enforce_audio opts s)) ''video'' = selectMedia s ''video''"
  by (cases "selectMedia s ''audio''") (simp_all add: enforce_audio_def selectMedia_set_direction)

lemma enforce_video_video:
  "selectMedia (fst (enforce_video s)) ''video''
     = map_option (\<lambda>m. m\<lparr>m_direction := Some ''sendrecv''\<rparr>) (selectMedia s ''video'')"
  by (cases "selectMedia s ''video''") (simp_all add: enforce_video_def selectMedia_set_direction)

lemma enforce_video_audio:
  "selectMedia (fst (enforce_video s)) ''audio'' = selectMedia s ''audio''"
  by (cases "selectMedia s ''video''") (simp_all add: enforce_video_def selectMedia_set_direction)

lemma enforceSendRecv_edit_fst:
  "fst (enforceSendRecv_edit opts s) = fst (enforce_video (fst (enforce_audio opts s)))"
  by (simp add: enforceSendRecv_edit_def case_prod_beta)

lemma enforceSendRecv_edit_snd:
  "snd (enforceSendRecv_edit opts s)
     = (snd (enforce_audio opts s) \<or> snd (enforce_video (fst (enforce_audio opts s))))"
  by (simp add: enforceSendRecv_edit_def case_prod_beta)

lemma enforceSendRecv_edit_video:
  "selectMedia (fst (enforceSendRecv_edit opts s)) ''video''
     = map_option (\<lambda>m. m\<lparr>m_direction := Some ''sendrecv''\<rparr>) (selectMedia s ''video'')"
  by (simp add: enforceSendRecv_edit_fst enforce_video_video enforce_audio_video)

lemma enforceSendRecv_edit_audio:
  "selectMedia (fst (enforceSendRecv_edit opts s)) ''audio''
     = map_option (\<lambda>m. m\<lparr>m_direction :=
           Some (if startSilent opts \<and> m_direction m \<noteq> Some ''sendrecv''
                 then ''inactive'' else ''sendrecv'')\<rparr>) (selectMedia s ''audio'')"
  by (simp add: enforceSendRecv_edit_fst enforce_video_audio enforce_audio_audio)

lemma enforce_audio_unchanged: "\<not> snd (enforce_audio opts s) \<Longrightarrow> fst (enforce_audio opts s) = s"
  by (cases "selectMedia s ''audio''") (simp_all add: enforce_audio_def split: if_splits)

lemma enforce_video_unchanged: "\<not> snd (enforce_video s) \<Longrightarrow> fst (enforce_video s) = s"
  by (cases "selectMedia s ''video''") (simp_all add: enforce_video_def split: if_splits)

lemma enforceSendRecv_edit_unchanged:
  assumes "\<not> snd (enforceSendRecv_edit opts s)"
  shows "fst (enforceSendRecv_edit opts s) = s"
proof -
  from assms have a: "\<not> snd (enforce_audio opts s)"
    and v: "\<not> snd (enforce_video (fst (enforce_audio opts s)))"
    by (simp_all add: enforceSendRecv_edit_snd)
  from a have "fst (enforce_audio opts s) = s" by (rule enforce_audio_unchanged)
  moreover from v have "fst (enforce_video (fst (enforce_audio opts s))) = fst (enforce_audio opts s)"
    by (rule enforce_video_unchanged)
  ultimately show ?thesis by (simp add: enforceSendRecv_edit_fst)
qed




lemma enforceSendRecv_Some:
  "enforceSendRecv parse write (Some d) opts =
     (if snd (enforceSendRecv_edit opts (parse (sdp d)))
      then Returned \<lparr>d_type = d_type d, sdp = write (fst (enforceSendRecv_edit opts (parse (sdp d))))\<rparr>
      else Returned d)"
  by (simp add: enforceSendRecv_def case_prod_beta)

text \<open>
  C7 (amended). Provided the parser reads back what the writer wrote for the edited
  description, the description \<open>enforceSendRecv\<close> returns has a video section with
  direction \<open>sendrecv\<close> whenever it has one, and an audio section whose direction is
  \<open>sendrecv\<close>, except that with \<open>options.startSilent\<close> an audio section that was
  not \<open>sendrecv\<close> becomes \<open>inactive\<close>. Nothing else of the two sections changes.
\<close>

theorem enforceSendRecv_directions:
  assumes rt: "parse (write (fst (enforceSendRecv_edit opts (parse (sdp d)))))
                 = fst (enforceSendRecv_edit opts (parse (sdp d)))"
  shows "\<exists>d'. enforceSendRecv parse write (Some d) opts = Returned d'
     \<and> selectMedia (parse (sdp d')) ''video''
         = map_option (\<lambda>m. m\<lparr>m_direction := Some ''sendrecv''\<rparr>)
             (selectMedia (parse (sdp d)) ''video'')
     \<and> selectMedia (parse (sdp d')) ''audio''
         = map_option (\<lambda>m. m\<lparr>m_direction :=
               Some (if startSilent opts \<and> m_direction m \<noteq> Some ''sendrecv''
                     then ''inactive'' else ''sendrecv'')\<rparr>)
             (selectMedia (parse (sdp d)) ''audio'')"
proof (cases "snd (enforceSendRecv_edit opts (parse (sdp d)))")
  case True
  then have "enforceSendRecv parse write (Some d) opts
      = Returned \<lparr>d_type = d_type d, sdp = write (fst (enforceSendRecv_edit opts (parse (sdp d))))\<rparr>"
    by (simp add: enforceSendRecv_Some)
  then show ?thesis
    by (simp add: rt enforceSendRecv_edit_video enforceSendRecv_edit_audio)
next
  case False
  then have r: "enforceSendRecv parse write (Some d) opts = Returned d"
    by (simp add: enforceSendRecv_Some)
  from False have e: "fst (enforceSendRecv_edit opts (parse (sdp d))) = parse (sdp d)"
    by (rule enforceSendRecv_edit_unchanged)
  have v: "selectMedia (parse (sdp d)) ''video''
         = map_option (\<lambda>m. m\<lparr>m_direction := Some ''sendrecv''\<rparr>)
             (selectMedia (parse (sdp d)) ''video'')"
    using enforceSendRecv_edit_video [of opts "parse (sdp d)"] unfolding e .
  have a: "selectMedia (parse (sdp d)) ''audio''
         = map_option (\<lambda>m. m\<lparr>m_direction :=
               Some (if startSilent opts \<and> m_direction m \<noteq> Some ''sendrecv''
                     then ''inactive'' else ''sendrecv'')\<rparr>)
             (selectMedia (parse (sdp d)) ''audio'')"
    using enforceSendRecv_edit_audio [of opts "parse (sdp d)"] unfolding e .
  from r v a show ?thesis by blast
qed


lemma example_edit_plain:
  "enforceSendRecv_edit example_options (example_parse ''recvonly/recvonly'')
     = (session_of (Some ''sendrecv'') (Some ''sendrecv''), True)"
  by (simp add: enforceSendRecv_edit_def enforce_audio_def enforce_video_def selectMedia_def
        set_direction_def example_parse_def example_texts_def session_of_def audio_line_def
        video_line_def example_options_def)

lemma example_edit_silent:
  "enforceSendRecv_edit silent_options (example_parse ''recvonly/recvonly'')
     = (session_of (Some ''inactive'') (Some ''sendrecv''), True)"
  by (simp add: enforceSendRecv_edit_def enforce_audio_def enforce_video_def selectMedia_def
        set_direction_def example_parse_def example_texts_def session_of_def audio_line_def
        video_line_def example_options_def silent_options_def)

lemma example_roundtrip:
  "example_parse (example_write (session_of (Some ''sendrecv'') (Some ''sendrecv'')))
     = session_of (Some ''sendrecv'') (Some ''sendrecv'')"
  "example_parse (example_write (session_of (Some ''inactive'') (Some ''sendrecv'')))
     = session_of (Some ''inactive'') (Some ''sendrecv'')"
  by (simp_all add: example_parse_def example_write_def example_texts_def session_of_def
        audio_line_def video_line_def)

theorem enforceSendRecv_directions_witness:
  "example_parse (example_write (fst (enforceSendRecv_edit example_options
        (example_parse (sdp recvonly_description)))))
     = fst (enforceSendRecv_edit example_options (example_parse (sdp recvonly_description)))
   \<and> (\<exists>d'. enforceSendRecv example_parse example_write (Some recvonly_description) example_options
             = Returned d'
         \<and> selectMedia (example_parse (sdp d')) ''video'' = Some (video_line (Some ''sendrecv''))
         \<and> selectMedia (example_parse (sdp d')) ''audio'' = Some (audio_line (Some ''sendrecv'')))"
proof -
  have rt: "example_parse (example_write (fst (enforceSendRecv_edit example_options
        (example_parse (sdp recvonly_description)))))
     = fst (enforceSendRecv_edit example_options (example_parse (sdp recvonly_description)))"
    by (simp add: recvonly_description_def example_edit_plain example_roundtrip)
  have v: "selectMedia (example_parse (sdp recvonly_description)) ''video''
             = Some (video_line (Some ''recvonly''))"
    and a: "selectMedia (example_parse (sdp recvonly_description)) ''audio''
             = Some (audio_line (Some ''recvonly''))"
    by (simp_all add: recvonly_description_def example_parse_def example_texts_def
          session_of_def selectMedia_def audio_line_def video_line_def)
  have o: "\<not> startSilent example_options" by (simp add: example_options_def)
  show ?thesis
    using enforceSendRecv_directions [of example_parse example_write example_options
        recvonly_description, OF rt] rt
    by (simp add: v a o) (simp add: video_line_def audio_line_def)
qed

text \<open>
  With \<open>options.startSilent\<close> a receive-only audio section leaves
  \<open>enforceSendRecv\<close> as \<open>inactive\<close>, not \<open>sendrecv\<close>.
\<close>

theorem enforceSendRecv_startSilent_counterexample:
  "enforceSendRecv example_parse example_write (Some recvonly_description) silent_options
     = Returned \<lparr>d_type = ''offer'', sdp = ''inactive/sendrecv''\<rparr>
   \<and> selectMedia (example_parse ''inactive/sendrecv'') ''audio''
     = Some (audio_line (Some ''inactive''))
   \<and> m_direction (audio_line (Some ''inactive'')) \<noteq> Some ''sendrecv''"
proof -
  have "example_write (session_of (Some ''inactive'') (Some ''sendrecv'')) = ''inactive/sendrecv''"
    by (simp add: example_write_def example_texts_def session_of_def audio_line_def
          video_line_def)
  then show ?thesis
    using example_edit_silent
    by (simp add: enforceSendRecv_Some recvonly_description_def)
       (simp add: example_parse_def example_texts_def session_of_def selectMedia_def
          audio_line_def)
qed

section \<open>Properties of the fallback codec injection\<close>

lemma find_dummy_payload_strings: "find_dummy_payload (map JString xs) 127 = Some 127"
  by (subst find_dummy_payload.simps) auto

lemma string_of_int_127: "string_of_int 127 = ''127''"
  by code_simp

lemma video_line_no_h264:
  "\<not> list_ex (\<lambda>rtp. toLowerCase (rtp_codec rtp) = ''h264'') (m_rtp (video_line v))"
  by (simp add: video_line_def toLowerCase_def lower_char_def)

lemma video_line_payloadsArray:
  "payloadsArray_of (video_line v) = Returned [JString ''96'', JString ''127'']"
  by (simp add: payloadsArray_of_def video_line_def)

text \<open>
  C5. The payload type \<open>_injectH264IfNotPresent\<close> picks is 127 whatever payload types
  the video section already lists: \<open>includes\<close> compares the number with the strings
  that \<open>split\<close> produced and never finds it (a video section without a payload list
  makes \<open>toString\<close> throw before the search). On a video section listing the payload
  types 96 and 127 the injected H264 entry, its fmtp line and the appended payload id are
  all 127, which is occupied, and not 126, the highest unused value.
\<close>

theorem injectH264_payload_type_is_127:
  "(payloadsArray_of videoMLine = Threw ''TypeError''
      \<or> (\<exists>payloadsArray. payloadsArray_of videoMLine = Returned payloadsArray
            \<and> find_dummy_payload payloadsArray 127 = Some 127))
   \<and> injectH264IfNotPresent (\<lambda>t. session_of a v) write d =
       Returned \<lparr>d_type = d_type d,
        sdp = write \<lparr>s_media =
                [audio_line a,
                 (video_line v)\<lparr>m_payloads := JString ''96 127 127'',
                    m_rtp := m_rtp (video_line v)
                      @ [\<lparr>rtp_payload = 127, rtp_codec = ''H264'', rtp_rate = Some 90000\<rparr>],
                    m_fmtp := [\<lparr>fmtp_payload = 127, fmtp_config = H264_fmtp_config\<rparr>]\<rparr>],
              s_other = ''v=0''\<rparr>\<rparr>"
proof
  show "payloadsArray_of videoMLine = Threw ''TypeError''
      \<or> (\<exists>payloadsArray. payloadsArray_of videoMLine = Returned payloadsArray
            \<and> find_dummy_payload payloadsArray 127 = Some 127)"
    by (simp add: payloadsArray_of_def find_dummy_payload_strings)
next
  have f: "find_dummy_payload [JString ''96'', JString ''127''] 127 = Some 127"
    using find_dummy_payload_strings [of "[''96'', ''127'']"] by simp
  have m: "m_type (audio_line a) = ''audio''" "m_type (video_line v) = ''video''"
    "m_fmtp (video_line v) = []"
    by (simp_all add: audio_line_def video_line_def)
  show "injectH264IfNotPresent (\<lambda>t. session_of a v) write d =
       Returned \<lparr>d_type = d_type d,
        sdp = write \<lparr>s_media =
                [audio_line a,
                 (video_line v)\<lparr>m_payloads := JString ''96 127 127'',
                    m_rtp := m_rtp (video_line v)
                      @ [\<lparr>rtp_payload = 127, rtp_codec = ''H264'', rtp_rate = Some 90000\<rparr>],
                    m_fmtp := [\<lparr>fmtp_payload = 127, fmtp_config = H264_fmtp_config\<rparr>]\<rparr>],
              s_other = ''v=0''\<rparr>\<rparr>"
    using video_line_no_h264 [of v]
    by (simp add: injectH264IfNotPresent_def H264_edit_def Let_def session_of_def m
          video_line_payloadsArray f inject_H264_into_def join_with_def string_of_int_127)
qed

section \<open>Properties of the receive-only SSRC rewrite\<close>

lemma find_SomeD: "find P xs = Some x \<Longrightarrow> P x \<and> x \<in> set xs"
  by (induction xs) (auto split: if_splits)

lemma recvonly_line:
  "ssrc_id c = x \<Longrightarrow> ssrc_attribute c = ''cname'' \<Longrightarrow>
     c\<lparr>ssrc_value := v\<rparr> = \<lparr>ssrc_id = x, ssrc_attribute = ''cname'', ssrc_value = v\<rparr>"
  by (cases c) simp

lemma replace_msid_loop_result:
  assumes "\<forall>sid\<in>set ids. \<exists>c\<in>set fl. ssrc_id c = sid \<and> ssrc_attribute c = ''cname''"
  shows "replace_msid_loop ids fl =
     Returned (filter (\<lambda>l. ssrc_id l \<notin> set ids) fl
               @ map (\<lambda>sid. \<lparr>ssrc_id = sid, ssrc_attribute = ''cname'',
                               ssrc_value = Some (''recvonly-'' @ string_of_int sid)\<rparr>)
                   (remdups ids))"
  using assms
proof (induction ids arbitrary: fl)
  case Nil
  then show ?case by simp
next
  case (Cons x rest)
  let ?rw = "\<lambda>sid. \<lparr>ssrc_id = sid, ssrc_attribute = ''cname'',
                       ssrc_value = Some (''recvonly-'' @ string_of_int sid)\<rparr>"
  have "find (\<lambda>line. ssrc_id line = x \<and> ssrc_attribute line = ''cname'') fl \<noteq> None"
    using Cons.prems by (auto simp: find_None_iff)
  then obtain c where
    c: "find (\<lambda>line. ssrc_id line = x \<and> ssrc_attribute line = ''cname'') fl = Some c" by auto
  then have cx: "ssrc_id c = x" "ssrc_attribute c = ''cname''" by (auto dest: find_SomeD)
  let ?fl' = "filter (\<lambda>line. ssrc_id line \<noteq> x) fl @ [?rw x]"
  have step: "replace_msid_loop (x # rest) fl = replace_msid_loop rest ?fl'"
    by (simp add: c recvonly_line [OF cx])
  have p: "\<forall>sid\<in>set rest. \<exists>c\<in>set ?fl'. ssrc_id c = sid \<and> ssrc_attribute c = ''cname''"
  proof
    fix sid assume s: "sid \<in> set rest"
    then obtain d where d: "d \<in> set fl" "ssrc_id d = sid" "ssrc_attribute d = ''cname''"
      using Cons.prems by auto
    show "\<exists>c\<in>set ?fl'. ssrc_id c = sid \<and> ssrc_attribute c = ''cname''"
    proof (cases "sid = x")
      case True
      then show ?thesis by simp
    next
      case False
      with d show ?thesis by auto
    qed
  qed
  have f: "filter (\<lambda>l. ssrc_id l \<notin> set rest) (filter (\<lambda>line. ssrc_id line \<noteq> x) fl)
             = filter (\<lambda>l. ssrc_id l \<notin> set (x # rest)) fl"
    by (induction fl) auto
  show ?case
  proof (cases "x \<in> set rest")
    case True
    then show ?thesis unfolding step Cons.IH [OF p] by (simp add: f)
  next
    case False
    then show ?thesis unfolding step Cons.IH [OF p] by (simp add: f)
  qed
qed

text \<open>
  C6 (amended). On any browser other than Chrome above version 70,
  \<open>replaceDefaultUnifiedPlanMsid\<close> returns the lines as they are. On Chrome above
  version 70, when every SSRC that has an \<open>mslabel\<close> line with value \<open>-\<close> also has a
  cname line, the returned list is made of the lines of all other SSRCs, unchanged and in
  their order, followed by one line for each such SSRC: its cname line with the value
  \<open>recvonly-<ssrc>\<close>. These lines stand at the end of the list, in the order in which
  the \<open>mslabel\<close> lines last name their SSRCs.
\<close>

theorem replaceDefaultUnifiedPlanMsid_result:
  "(\<not> (isChrome b \<and> isVersionGreaterThan b 70) \<longrightarrow>
      replaceDefaultUnifiedPlanMsid b ls = Returned ls)
   \<and> (isChrome b \<and> isVersionGreaterThan b 70
       \<and> (\<forall>sid\<in>set (problematicSsrcIds ls).
             \<exists>c\<in>set ls. ssrc_id c = sid \<and> ssrc_attribute c = ''cname'') \<longrightarrow>
       replaceDefaultUnifiedPlanMsid b ls =
         Returned (filter (\<lambda>l. ssrc_id l \<notin> set (problematicSsrcIds ls)) ls
                   @ map (\<lambda>sid. \<lparr>ssrc_id = sid, ssrc_attribute = ''cname'',
                                   ssrc_value = Some (''recvonly-'' @ string_of_int sid)\<rparr>)
                       (remdups (problematicSsrcIds ls))))"
proof (intro conjI impI)
  assume "\<not> (isChrome b \<and> isVersionGreaterThan b 70)"
  then show "replaceDefaultUnifiedPlanMsid b ls = Returned ls"
    by (auto simp: replaceDefaultUnifiedPlanMsid_def)
next
  assume h: "isChrome b \<and> isVersionGreaterThan b 70
       \<and> (\<forall>sid\<in>set (problematicSsrcIds ls).
             \<exists>c\<in>set ls. ssrc_id c = sid \<and> ssrc_attribute c = ''cname'')"
  then have e: "replaceDefaultUnifiedPlanMsid b ls = replace_msid_loop (problematicSsrcIds ls) ls"
    by (simp add: replaceDefaultUnifiedPlanMsid_def)
  from h have "\<forall>sid\<in>set (problematicSsrcIds ls).
             \<exists>c\<in>set ls. ssrc_id c = sid \<and> ssrc_attribute c = ''cname''" by simp
  from replace_msid_loop_result [OF this]
  show "replaceDefaultUnifiedPlanMsid b ls =
         Returned (filter (\<lambda>l. ssrc_id l \<notin> set (problematicSsrcIds ls)) ls
                   @ map (\<lambda>sid. \<lparr>ssrc_id = sid, ssrc_attribute = ''cname'',
                                   ssrc_value = Some (''recvonly-'' @ string_of_int sid)\<rparr>)
                       (remdups (problematicSsrcIds ls)))"
    unfolding e .
qed

lemma string_of_int_5: "string_of_int 5 = ''5''"
  by code_simp

theorem replaceDefaultUnifiedPlanMsid_result_witness:
  "isChrome chrome_caps \<and> isVersionGreaterThan chrome_caps 70
   \<and> problematicSsrcIds example_ssrc_lines = [5]
   \<and> replaceDefaultUnifiedPlanMsid chrome_caps example_ssrc_lines =
       Returned [\<lparr>ssrc_id = 6, ssrc_attribute = ''cname'', ssrc_value = Some ''def''\<rparr>,
                 \<lparr>ssrc_id = 6, ssrc_attribute = ''msid'', ssrc_value = Some ''stream6 track6''\<rparr>,
                 \<lparr>ssrc_id = 5, ssrc_attribute = ''cname'', ssrc_value = Some ''recvonly-5''\<rparr>]
   \<and> \<not> isChrome firefox_caps
   \<and> replaceDefaultUnifiedPlanMsid firefox_caps example_ssrc_lines = Returned example_ssrc_lines"
proof -
  have c: "isChrome chrome_caps \<and> isVersionGreaterThan chrome_caps 70"
    by (simp add: chrome_caps_def isVersionGreaterThan_def)
  have p: "problematicSsrcIds example_ssrc_lines = [5]"
    by (simp add: problematicSsrcIds_def example_ssrc_lines_def)
  have h: "isChrome chrome_caps \<and> isVersionGreaterThan chrome_caps 70
       \<and> (\<forall>sid\<in>set (problematicSsrcIds example_ssrc_lines).
             \<exists>c\<in>set example_ssrc_lines. ssrc_id c = sid \<and> ssrc_attribute c = ''cname'')"
    using c by (simp add: p) (simp add: example_ssrc_lines_def)
  have o: "filter (\<lambda>l. ssrc_id l \<noteq> 5) example_ssrc_lines
            = [\<lparr>ssrc_id = 6, ssrc_attribute = ''cname'', ssrc_value = Some ''def''\<rparr>,
               \<lparr>ssrc_id = 6, ssrc_attribute = ''msid'', ssrc_value = Some ''stream6 track6''\<rparr>]"
    by (simp add: example_ssrc_lines_def)
  have r: "replaceDefaultUnifiedPlanMsid chrome_caps example_ssrc_lines =
       Returned [\<lparr>ssrc_id = 6, ssrc_attribute = ''cname'', ssrc_value = Some ''def''\<rparr>,
                 \<lparr>ssrc_id = 6, ssrc_attribute = ''msid'', ssrc_value = Some ''stream6 track6''\<rparr>,
                 \<lparr>ssrc_id = 5, ssrc_attribute = ''cname'', ssrc_value = Some ''recvonly-5''\<rparr>]"
    using replaceDefaultUnifiedPlanMsid_result [of chrome_caps example_ssrc_lines, THEN conjunct2] h
    by (simp add: p o string_of_int_5)
  have n: "\<not> isChrome firefox_caps" by (simp add: firefox_caps_def)
  have f: "replaceDefaultUnifiedPlanMsid firefox_caps example_ssrc_lines
             = Returned example_ssrc_lines"
    using replaceDefaultUnifiedPlanMsid_result [of firefox_caps example_ssrc_lines, THEN conjunct1] n
    by simp
  from c p r n f show ?thesis by (intro conjI) simp_all
qed

text \<open>
  On Firefox the SSRC with \<open>mslabel\<close> \<open>-\<close> keeps all four of its lines. On
  Chrome above version 70 an SSRC with \<open>mslabel\<close> \<open>-\<close> and no cname line makes
  the function throw.
\<close>

theorem replaceDefaultUnifiedPlanMsid_firefox_counterexample:
  "replaceDefaultUnifiedPlanMsid firefox_caps example_ssrc_lines = Returned example_ssrc_lines
   \<and> filter (\<lambda>l. ssrc_id l = 5) example_ssrc_lines =
       [\<lparr>ssrc_id = 5, ssrc_attribute = ''cname'', ssrc_value = Some ''abc''\<rparr>,
        \<lparr>ssrc_id = 5, ssrc_attribute = ''msid'', ssrc_value = Some ''- track5''\<rparr>,
        \<lparr>ssrc_id = 5, ssrc_attribute = ''mslabel'', ssrc_value = Some ''-''\<rparr>,
        \<lparr>ssrc_id = 5, ssrc_attribute = ''label'', ssrc_value = Some ''track5''\<rparr>]
   \<and> replaceDefaultUnifiedPlanMsid chrome_caps
         [\<lparr>ssrc_id = 5, ssrc_attribute = ''msid'', ssrc_value = Some ''- track5''\<rparr>,
          \<lparr>ssrc_id = 5, ssrc_attribute = ''mslabel'', ssrc_value = Some ''-''\<rparr>]
       = Threw ''TypeError''"
  by (simp add: replaceDefaultUnifiedPlanMsid_def firefox_caps_def example_ssrc_lines_def
        chrome_caps_def isVersionGreaterThan_def problematicSsrcIds_def)

section \<open>Properties of committing a local description\<close>

lemma trace_keeps [simp]:
  "emitted (trace st w i) = emitted st" "localUfrag (trace st w i) = localUfrag st"
  by (simp_all add: trace_def)

lemma h264_step_keeps:
  assumes "h264_step deps st d = (r, st1)"
  shows "emitted st1 = emitted st \<and> localUfrag st1 = localUfrag st"
  using assms
  by (auto simp: h264_step_def Let_def split: if_splits outcome.splits)

lemma adjustLocalMediaDirection_keeps:
  assumes "adjustLocalMediaDirection parse write st d = (d', st1)"
  shows "emitted st1 = emitted st \<and> localUfrag st1 = localUfrag st"
  using assms
  by (auto simp: adjustLocalMediaDirection_def Let_def split: if_splits prod.splits)

lemma prepareLocalDescription_keeps:
  assumes "prepareLocalDescription deps browser st d = (r, st1)"
  shows "emitted st1 = emitted st \<and> localUfrag st1 = localUfrag st"
proof -
  let ?st0 = "trace st ''setLocalDescription::preTransform'' (dumpSDP d)"
  obtain r1 st_a where h: "h264_step deps ?st0 d = (r1, st_a)" by (cases "h264_step deps ?st0 d")
  then have a: "emitted st_a = emitted st \<and> localUfrag st_a = localUfrag st"
    using h264_step_keeps [OF h] by simp
  show ?thesis
  proof (cases r1)
    case (Threw e)
    with assms h a show ?thesis by (simp add: prepareLocalDescription_def)
  next
    case (Returned l1)
    obtain l2 st_b where
      b: "adjustLocalMediaDirection (dep_parse deps) (dep_write deps) st_a l1 = (l2, st_b)"
      by (cases "adjustLocalMediaDirection (dep_parse deps) (dep_write deps) st_a l1")
    then have c: "emitted st_b = emitted st \<and> localUfrag st_b = localUfrag st"
      using adjustLocalMediaDirection_keeps [OF b] a by simp
    with assms h Returned b show ?thesis
      by (auto simp: prepareLocalDescription_def Let_def split: if_splits outcome.splits)
  qed
qed

text \<open>
  C2. Once \<open>setLocalDescription\<close> has prepared the description it hands to the
  transport: when the transport's commit fails, the call rejects with the transport's
  error, the only event emitted is set-local-description-failed and the stored local ufrag
  is the one held before; when the commit succeeds, the call resolves, a
  local-ufrag-changed event is emitted exactly when the ufrag of the committed description
  differs from the stored one, and the stored ufrag is that of the committed description.
\<close>

theorem setLocalDescription_outcome:
  assumes p: "prepareLocalDescription deps browser st d = (Returned localSdp, st1)"
  shows "(\<forall>err. dep_pc_setLocalDescription deps localSdp = Some err \<longrightarrow>
            fst (setLocalDescription deps browser st d) = Returned (Rejected err)
            \<and> emitted (snd (setLocalDescription deps browser st d))
                = emitted st @ [SET_LOCAL_DESCRIPTION_FAILED err]
            \<and> localUfrag (snd (setLocalDescription deps browser st d)) = localUfrag st)
       \<and> (dep_pc_setLocalDescription deps localSdp = None \<longrightarrow>
            fst (setLocalDescription deps browser st d) = Returned Resolved
            \<and> emitted (snd (setLocalDescription deps browser st d))
                = emitted st @ (if dep_getUfrag deps (sdp localSdp) \<noteq> localUfrag st
                                then [LOCAL_UFRAG_CHANGED (dep_getUfrag deps (sdp localSdp))]
                                else [])
            \<and> localUfrag (snd (setLocalDescription deps browser st d))
                = dep_getUfrag deps (sdp localSdp))"
proof -
  from p have k: "emitted st1 = emitted st" "localUfrag st1 = localUfrag st"
    using prepareLocalDescription_keeps [OF p] by simp_all
  show ?thesis
    using k
    by (auto simp: setLocalDescription_def p commitLocalDescription_def Let_def
          split: option.splits)
qed

lemma example_deps_fields:
  "dep_parse (example_deps commit) = example_parse"
  "dep_write (example_deps commit) = example_write"
  "dep_toUnifiedPlan (example_deps commit) = Returned"
  "dep_pc_setLocalDescription (example_deps commit) = commit"
  by (simp_all add: example_deps_def)

lemma example_prepare:
  "fst (prepareLocalDescription (example_deps commit) chrome_caps example_tpc recvonly_description)
     = Returned \<lparr>d_type = ''offer'', sdp = ''recvonly/sendrecv''\<rparr>"
proof -
  have o: "\<not> disableH264 (options example_tpc)" "\<not> preferH264 (options example_tpc)"
    by (simp_all add: example_tpc_def example_options_def)
  have h: "h264_step (example_deps commit) st recvonly_description = (Returned recvonly_description, st)"
    if "options st = options example_tpc" for st
    using that o by (simp add: h264_step_def)
  have da: "getDesiredMediaDirection st ''audio'' = ''recvonly''"
    and dv: "getDesiredMediaDirection st ''video'' = ''sendrecv''"
    if "localTracks st = localTracks example_tpc" "audioTransferActive st" "videoTransferActive st" for st
    using that
    by (simp_all add: getDesiredMediaDirection_def hasAnyTracksOfType_def getLocalTracks_def
          Map_values_def example_tpc_def example_local_def)
  have p: "example_parse (sdp recvonly_description) = session_of (Some ''recvonly'') (Some ''recvonly'')"
    by (simp add: recvonly_description_def example_parse_def example_texts_def)
  have w: "example_write (session_of (Some ''recvonly'') (Some ''sendrecv'')) = ''recvonly/sendrecv''"
    by (simp add: example_write_def example_texts_def session_of_def audio_line_def video_line_def)
  have adj: "fst (adjustLocalMediaDirection example_parse example_write st recvonly_description)
          = \<lparr>d_type = ''offer'', sdp = ''recvonly/sendrecv''\<rparr>"
    if "localTracks st = localTracks example_tpc" "audioTransferActive st" "videoTransferActive st" for st
    using da [OF that] dv [OF that]
    by (simp add: adjustLocalMediaDirection_def adjust_media_def p Let_def selectMedia_def
          set_direction_def session_of_def audio_line_def video_line_def)
       (simp add: w [unfolded session_of_def audio_line_def video_line_def] recvonly_description_def)
  have ens: "ensureSimulcastGroupIsLast \<lparr>d_type = ''offer'', sdp = ''recvonly/sendrecv''\<rparr>
          = \<lparr>d_type = ''offer'', sdp = ''recvonly/sendrecv''\<rparr>"
    by code_simp
  let ?st0 = "trace example_tpc ''setLocalDescription::preTransform'' (dumpSDP recvonly_description)"
  have t: "options ?st0 = options example_tpc" "localTracks ?st0 = localTracks example_tpc"
    "audioTransferActive ?st0" "videoTransferActive ?st0"
    by (simp_all add: trace_def example_tpc_def)
  have u: "\<not> usesUnifiedPlan chrome_caps" by (simp add: chrome_caps_def)
  show ?thesis
    using adj [OF t(2,3,4)] ens u
    by (simp add: prepareLocalDescription_def h [OF t(1)] example_deps_fields case_prod_beta
          Let_def)
qed

theorem setLocalDescription_outcome_witness:
  "fst (prepareLocalDescription (example_deps failing_transport) chrome_caps example_tpc
          recvonly_description)
     = Returned \<lparr>d_type = ''offer'', sdp = ''recvonly/sendrecv''\<rparr>
   \<and> fst (setLocalDescription (example_deps failing_transport) chrome_caps example_tpc
          recvonly_description) = Returned (Rejected ''InvalidSessionDescriptionError'')
   \<and> emitted (snd (setLocalDescription (example_deps failing_transport) chrome_caps example_tpc
          recvonly_description)) = [SET_LOCAL_DESCRIPTION_FAILED ''InvalidSessionDescriptionError'']
   \<and> localUfrag (snd (setLocalDescription (example_deps failing_transport) chrome_caps example_tpc
          recvonly_description)) = UfragNull
   \<and> fst (setLocalDescription (example_deps accepting_transport) chrome_caps example_tpc
          recvonly_description) = Returned Resolved
   \<and> emitted (snd (setLocalDescription (example_deps accepting_transport) chrome_caps example_tpc
          recvonly_description)) = [LOCAL_UFRAG_CHANGED (Ufrag ''u1'')]
   \<and> localUfrag (snd (setLocalDescription (example_deps accepting_transport) chrome_caps
          example_tpc recvonly_description)) = Ufrag ''u1''"
proof -
  let ?l = "\<lparr>d_type = ''offer'', sdp = ''recvonly/sendrecv''\<rparr>"
  have pf: "prepareLocalDescription (example_deps failing_transport) chrome_caps example_tpc
              recvonly_description
            = (Returned ?l, snd (prepareLocalDescription (example_deps failing_transport)
                 chrome_caps example_tpc recvonly_description))"
    using example_prepare [of failing_transport] by (simp add: prod_eq_iff)
  have pa: "prepareLocalDescription (example_deps accepting_transport) chrome_caps example_tpc
              recvonly_description
            = (Returned ?l, snd (prepareLocalDescription (example_deps accepting_transport)
                 chrome_caps example_tpc recvonly_description))"
    using example_prepare [of accepting_transport] by (simp add: prod_eq_iff)
  have e: "emitted example_tpc = []" "localUfrag example_tpc = UfragNull"
    by (simp_all add: example_tpc_def)
  have f: "dep_pc_setLocalDescription (example_deps failing_transport) ?l
             = Some ''InvalidSessionDescriptionError''"
    "dep_pc_setLocalDescription (example_deps accepting_transport) ?l = None"
    "dep_getUfrag (example_deps accepting_transport) (sdp ?l) = Ufrag ''u1''"
    by (simp_all add: example_deps_def failing_transport_def accepting_transport_def)
  show ?thesis
    using setLocalDescription_outcome [OF pf] setLocalDescription_outcome [OF pa]
      example_prepare [of failing_transport] e f
    by simp
qed

section \<open>Properties of the SSRC cache update\<close>

lemma updateTrackIdsToSSRCs_fst:
  "fst (updateTrackIdsToSSRCs re getTrackIdsToSSRCsFk trackIdsToSSRCs s) = s"
  by (simp add: updateTrackIdsToSSRCs_def Let_def case_prod_beta)

lemma example_new_map:
  "getPlanBTrackIdsToSSRCs example_engine example_sdp_222 = [(''track1'', [''222''])]"
  by (simp add: getPlanBTrackIdsToSSRCs_def getTrackIdsToSSRCs_def getPlanBTrackIds_def
        getPlanBSSRCs_def getMatches_def example_engine_def Set_add_def match_group_def
        Map_set_def)

lemma example_computed:
  "computed_newSdp example_engine (getPlanBTrackIdsToSSRCs example_engine)
     [(''track1'', [''111''])] example_sdp_222 = ''a=ssrc:111 msid:stream1 track1'' @ CRLF"
proof -
  have n: "''a=ssrc:111 msid:stream1 track1'' @ CRLF \<noteq> example_sdp_222"
    by (simp add: example_sdp_222_def)
  show ?thesis
    unfolding computed_newSdp_def example_new_map
    using n
    by (simp add: Map_has_def Map_get_def Let_def example_engine_def ssrc_group_pattern_def
          example_sdp_222_def CRLF_def)
qed

text \<open>
  C1. \<open>updateTrackIdsToSSRCs\<close> and its two wrappers return the SDP they were given,
  whatever the cache holds: the SSRCs of a known track are replaced in \<open>newSdp\<close> only,
  which is not returned. With track1 cached under SSRC 111 and a description announcing
  SSRC 222 for it, the returned SDP still announces 222, while the text the loops computed
  announces 111.
\<close>

theorem updateTrackIdsToSSRCs_returns_input:
  "fst (updateTrackIdsToSSRCs re getTrackIdsToSSRCsFk trackIdsToSSRCs s) = s
   \<and> fst (updatePlanBTrackIdsToSSRCs re trackIdsToSSRCs s) = s
   \<and> fst (updateUnifiedPlanTrackIdsToSSRCs re trackIdsToSSRCs s) = s
   \<and> getPlanBTrackIdsToSSRCs example_engine example_sdp_222 = [(''track1'', [''222''])]
   \<and> fst (updatePlanBTrackIdsToSSRCs example_engine [(''track1'', [''111''])] example_sdp_222)
       = ''a=ssrc:222 msid:stream1 track1'' @ CRLF
   \<and> computed_newSdp example_engine (getPlanBTrackIdsToSSRCs example_engine)
        [(''track1'', [''111''])] example_sdp_222 = ''a=ssrc:111 msid:stream1 track1'' @ CRLF"
proof (intro conjI)
  show "fst (updateTrackIdsToSSRCs re getTrackIdsToSSRCsFk trackIdsToSSRCs s) = s"
    by (rule updateTrackIdsToSSRCs_fst)
  show "fst (updatePlanBTrackIdsToSSRCs re trackIdsToSSRCs s) = s"
    by (simp add: updatePlanBTrackIdsToSSRCs_def updateTrackIdsToSSRCs_fst)
  show "fst (updateUnifiedPlanTrackIdsToSSRCs re trackIdsToSSRCs s) = s"
    by (simp add: updateUnifiedPlanTrackIdsToSSRCs_def updateTrackIdsToSSRCs_fst)
  show "getPlanBTrackIdsToSSRCs example_engine example_sdp_222 = [(''track1'', [''222''])]"
    by (rule example_new_map)
  show "fst (updatePlanBTrackIdsToSSRCs example_engine [(''track1'', [''111''])] example_sdp_222)
       = ''a=ssrc:222 msid:stream1 track1'' @ CRLF"
    by (simp add: updatePlanBTrackIdsToSSRCs_def updateTrackIdsToSSRCs_fst example_sdp_222_def)
  show "computed_newSdp example_engine (getPlanBTrackIdsToSSRCs example_engine)
        [(''track1'', [''111''])] example_sdp_222 = ''a=ssrc:111 msid:stream1 track1'' @ CRLF"
    by (rule example_computed)
qed

section \<open>Properties of the simulcast group ordering\<close>

subsection \<open>Occurrences of a pattern in a text\<close>












subsection \<open>The string operations at a known position\<close>












subsection \<open>Where a pattern can occur\<close>









subsection \<open>More on the string operations\<close>









subsection \<open>The three outcomes of the ordering step\<close>













section \<open>Repeating the rewrite steps\<close>















end
